theory Spec2Isabelle
  imports Complex_Main "HOL-Library.AList"
begin

section \<open>Arrays and errors\<close>

text \<open>
  One-dimensional numpy arrays are lists of reals, two-dimensional arrays whose
  number of columns is fixed by the code that allocates them are lists of rows.
  Arithmetic is exact (type \<open>real\<close>): rounding of the 64-bit floats is not part
  of the model.  Every exception the Python code can raise on a well-typed
  input is a value of \<open>error\<close>.
\<close>

type_synonym vec = "real list"
type_synonym mat = "real list list"

datatype error = IndexError | ValueError | KeyError | RuntimeError

text \<open>A batch array as the callers of the pendulum hand it over: numpy keeps the
  second dimension in \<open>shape\<close> even when the batch has no row.\<close>

record ndarray =
  ncols :: nat
  rows :: "real list list"

definition wf_ndarray :: "ndarray \<Rightarrow> bool" where
  "wf_ndarray a = list_all (\<lambda>r. length r = ncols a) (rows a)"

text \<open>\<open>a[:, j]\<close>: a column, IndexError when the array has no such column.\<close>

definition col :: "ndarray \<Rightarrow> nat \<Rightarrow> error + vec" where
  "col a j = (if j < ncols a then Inr (map (\<lambda>r. r ! j) (rows a)) else Inl IndexError)"

text \<open>\<open>v[j]\<close> on a one-dimensional array with a constant, non-negative index.\<close>

definition item :: "vec \<Rightarrow> nat \<Rightarrow> error + real" where
  "item v j = (if j < length v then Inr (v ! j) else Inl IndexError)"

text \<open>Elementwise binary operation of two one-dimensional arrays under numpy's
  broadcasting rule: equal lengths, or one of the two has length one.\<close>

definition broadcast2 :: "(real \<Rightarrow> real \<Rightarrow> real) \<Rightarrow> vec \<Rightarrow> vec \<Rightarrow> error + vec" where
  "broadcast2 f v w =
     (if length v = length w then Inr (map2 f v w)
      else if length v = 1 then Inr (map (f (hd v)) w)
      else if length w = 1 then Inr (map (\<lambda>a. f a (hd w)) v)
      else Inl ValueError)"

definition np_add :: "vec \<Rightarrow> vec \<Rightarrow> error + vec" where
  "np_add = broadcast2 (+)"

section \<open>The pendulum (examples/pendulum/pendulum\_dynamics.py)\<close>

text \<open>\<open>PendulumDynamics.__init__\<close>: the declared dimensions.\<close>

definition pendulum_dim_x :: nat where "pendulum_dim_x = 2"
definition pendulum_dim_u :: nat where "pendulum_dim_u = 1"

text \<open>\<open>dynamics_np\<close>: one semi-implicit Euler step.\<close>

definition dynamics_np :: "real \<Rightarrow> vec \<Rightarrow> vec \<Rightarrow> error + vec" where
  "dynamics_np dt x u =
     (case item x 0 of Inl e \<Rightarrow> Inl e | Inr angle \<Rightarrow>
      case item x 1 of Inl e \<Rightarrow> Inl e | Inr speed \<Rightarrow>
      case item u 0 of Inl e \<Rightarrow> Inl e | Inr u0 \<Rightarrow>
        (let next_speed = speed + dt * (- sin angle + u0);
             next_angle = angle + dt * next_speed
         in Inr [next_angle, next_speed]))"

text \<open>\<open>dynamics_batch_np\<close>: the same step on whole columns.\<close>

definition dynamics_batch_np :: "real \<Rightarrow> ndarray \<Rightarrow> ndarray \<Rightarrow> error + ndarray" where
  "dynamics_batch_np dt x u =
     (case col x 0 of Inl e \<Rightarrow> Inl e | Inr angle \<Rightarrow>
      case col x 1 of Inl e \<Rightarrow> Inl e | Inr speed \<Rightarrow>
      case col u 0 of Inl e \<Rightarrow> Inl e | Inr torque \<Rightarrow>
      case np_add (map (\<lambda>a. - sin a) angle) torque of Inl e \<Rightarrow> Inl e | Inr acc \<Rightarrow>
      case np_add speed (map (\<lambda>a. dt * a) acc) of Inl e \<Rightarrow> Inl e | Inr next_speed \<Rightarrow>
      case np_add angle (map (\<lambda>a. dt * a) next_speed) of Inl e \<Rightarrow> Inl e | Inr next_angle \<Rightarrow>
        Inr \<lparr>ncols = 2, rows = map2 (\<lambda>a s. [a, s]) next_angle next_speed\<rparr>)"

text \<open>\<open>torch.vstack\<close> of one-dimensional tensors: all of the same length, stacked
  as rows.\<close>

definition vstack :: "vec list \<Rightarrow> error + mat" where
  "vstack vs =
     (case vs of [] \<Rightarrow> Inl RuntimeError
      | v # ws \<Rightarrow> if list_all (\<lambda>w. length w = length v) ws then Inr vs else Inl RuntimeError)"

text \<open>\<open>.T\<close> of a stack of \<open>n\<close>-long rows.\<close>

definition np_transpose :: "nat \<Rightarrow> mat \<Rightarrow> mat" where
  "np_transpose n m = map (\<lambda>j. map (\<lambda>r. r ! j) m) [0..<n]"

text \<open>\<open>dynamics_batch_torch\<close>.  Moving the tensors to the device does not change
  their values and is left out; the indices and the five stacked rows are the
  ones of the source.\<close>

definition dynamics_batch_torch :: "real \<Rightarrow> ndarray \<Rightarrow> ndarray \<Rightarrow> error + ndarray" where
  "dynamics_batch_torch dt x u =
     (case col x 2 of Inl e \<Rightarrow> Inl e | Inr heading \<Rightarrow>
      case col x 3 of Inl e \<Rightarrow> Inl e | Inr v \<Rightarrow>
      case col x 4 of Inl e \<Rightarrow> Inl e | Inr steer \<Rightarrow>
      case col u 0 of Inl e \<Rightarrow> Inl e | Inr u0 \<Rightarrow>
      case col u 1 of Inl e \<Rightarrow> Inl e | Inr u1 \<Rightarrow>
      case vstack [map2 (\<lambda>a b. a * cos b) v heading,
                   map2 (\<lambda>a b. a * sin b) v heading,
                   map2 (\<lambda>a b. a * tan b) v steer, u0, u1] of
        Inl e \<Rightarrow> Inl e
      | Inr st \<Rightarrow>
          (let dxdt = np_transpose (length (rows x)) st in
           if ncols x = 5
           then Inr \<lparr>ncols = 5,
                     rows = map2 (\<lambda>r d. map2 (\<lambda>a b. a + dt * b) r d) (rows x) dxdt\<rparr>
           else Inl RuntimeError))"

text \<open>A batch of the class's declared dimensions.\<close>

definition pendulum_batch :: "ndarray \<Rightarrow> ndarray \<Rightarrow> bool" where
  "pendulum_batch x u =
     (wf_ndarray x \<and> wf_ndarray u \<and> ncols x = pendulum_dim_x \<and> ncols u = pendulum_dim_u
      \<and> length (rows x) = length (rows u))"

section \<open>The linearization estimators (irs\_lqr/mbp\_dynamics.py)\<close>

text \<open>
  The estimators call \<open>self.dynamics\<close> and \<open>self.jacobian_xu\<close>, which run the
  simulator and change the adapter's hidden state.  Both are parameters here:
  functions from the adapter state and the pair \<open>(x, u)\<close> to a result and the
  next adapter state, or to the exception they raise; \<open>dynamics\<close> also takes its
  \<open>requires_grad\<close> flag, \<open>False\<close> when the caller leaves it out.  \<open>n_x\<close> and \<open>n_u\<close> are
  \<open>self.dim_x\<close> and \<open>self.dim_u\<close>.

  The values returned by \<open>np.random.normal(0, std, size=[n, m])\<close> are inputs of
  the model: \<open>d i j\<close> is coordinate \<open>j\<close> of sample \<open>i\<close>, so the array has the
  requested shape by construction.  A sample count is a natural number.
\<close>

type_synonym 's dynamics_fn = "'s \<Rightarrow> vec \<Rightarrow> vec \<Rightarrow> bool \<Rightarrow> error + (vec \<times> 's)"
type_synonym 's jacobian_fn = "'s \<Rightarrow> vec \<Rightarrow> vec \<Rightarrow> error + (mat \<times> 's)"
type_synonym draw = "nat \<Rightarrow> nat \<Rightarrow> real"

definition zeros :: "nat \<Rightarrow> nat \<Rightarrow> mat" where
  "zeros n m = replicate n (replicate m 0)"

definition normal_draws :: "nat \<Rightarrow> nat \<Rightarrow> draw \<Rightarrow> mat" where
  "normal_draws n m d = map (\<lambda>i. map (d i) [0..<m]) [0..<n]"

definition eye :: "nat \<Rightarrow> mat" where
  "eye m = map (\<lambda>i. map (\<lambda>j. if i = j then 1 else 0) [0..<m]) [0..<m]"

text \<open>A value stored into a row of length \<open>m\<close> is broadcast to that length.\<close>

definition bcast_row :: "nat \<Rightarrow> vec \<Rightarrow> error + vec" where
  "bcast_row m v =
     (if length v = m then Inr v
      else if length v = 1 then Inr (replicate m (hd v))
      else Inl ValueError)"

text \<open>A two-dimensional value added to, or stored into, an \<open>n\<close> by \<open>m\<close> array is
  broadcast to that shape.\<close>

definition bcast_mat :: "nat \<Rightarrow> nat \<Rightarrow> mat \<Rightarrow> error + mat" where
  "bcast_mat n m J =
     (if (length J = n \<or> length J = 1) \<and> list_all (\<lambda>r. length r = m \<or> length r = 1) J
      then Inr (map (\<lambda>r. if length r = m then r else replicate m (hd r))
                  (if length J = n then J else replicate n (hd J)))
      else Inl ValueError)"

definition mat_add :: "mat \<Rightarrow> mat \<Rightarrow> mat" where
  "mat_add M N = map2 (map2 (+)) M N"

text \<open>\<open>x_next - x_next_nominal\<close>, with \<open>x_next\<close> of \<open>n_x\<close> columns, followed by the
  store of the difference (or of the fit computed from it) into an array of
  \<open>n_x\<close> columns.  A vector of length \<open>n_x\<close> is subtracted from every row, a
  vector of length one from every entry; any other length raises ValueError,
  at the subtraction or, when \<open>n_x = 1\<close>, at the store.\<close>

definition sub_rows :: "nat \<Rightarrow> mat \<Rightarrow> vec \<Rightarrow> error + mat" where
  "sub_rows n_x X v =
     (if length v = n_x then Inr (map (\<lambda>r. map2 (-) r v) X)
      else if length v = 1 then Inr (map (map (\<lambda>a. a - hd v)) X)
      else Inl ValueError)"

text \<open>\<open>M[r0 : r0 + len(V), c0 : c0 + width(V)] = V\<close> for a block \<open>V\<close> that fits.\<close>

definition set_block :: "nat \<Rightarrow> nat \<Rightarrow> mat \<Rightarrow> mat \<Rightarrow> mat" where
  "set_block r0 c0 V M =
     map (\<lambda>i. if r0 \<le> i \<and> i < r0 + length V
               then take c0 (M ! i) @ V ! (i - r0) @ drop (c0 + length (V ! (i - r0))) (M ! i)
               else M ! i)
       [0..<length M]"

subsection \<open>Modelled least squares\<close>

text \<open>
  \<open>np.linalg.lstsq(a, b, rcond=None)[0]\<close> belongs to numpy, not to the
  repository.  It is modelled by its documented contract: for \<open>a\<close> with \<open>n\<close>
  columns and \<open>b\<close> with \<open>k\<close> columns it returns an \<open>n\<close> by \<open>k\<close> array that
  minimises the squared Frobenius norm of \<open>a x - b\<close>, of least norm among the
  minimisers; a rank-deficient \<open>a\<close> is not an error.
\<close>

definition shape :: "nat \<Rightarrow> nat \<Rightarrow> mat \<Rightarrow> bool" where
  "shape n m M = (length M = n \<and> list_all (\<lambda>r. length r = m) M)"

definition dot :: "vec \<Rightarrow> vec \<Rightarrow> real" where
  "dot v w = sum_list (map2 (*) v w)"

definition mat_mul :: "nat \<Rightarrow> mat \<Rightarrow> mat \<Rightarrow> mat" where
  "mat_mul k A X = map (\<lambda>r. map (\<lambda>j. dot r (map (\<lambda>xr. xr ! j) X)) [0..<k]) A"

definition sq_norm :: "mat \<Rightarrow> real" where
  "sq_norm M = sum_list (map (\<lambda>r. sum_list (map (\<lambda>a. a * a) r)) M)"

definition residual :: "nat \<Rightarrow> mat \<Rightarrow> mat \<Rightarrow> mat \<Rightarrow> real" where
  "residual k A B X = sq_norm (map2 (map2 (-)) (mat_mul k A X) B)"

definition is_lstsq :: "nat \<Rightarrow> nat \<Rightarrow> mat \<Rightarrow> mat \<Rightarrow> mat \<Rightarrow> bool" where
  "is_lstsq n k A B X =
     (shape n k X
      \<and> (\<forall>Y. shape n k Y \<longrightarrow> residual k A B X \<le> residual k A B Y)
      \<and> (\<forall>Y. shape n k Y \<and> residual k A B Y \<le> residual k A B X \<longrightarrow> sq_norm X \<le> sq_norm Y))"

definition np_lstsq :: "nat \<Rightarrow> nat \<Rightarrow> mat \<Rightarrow> mat \<Rightarrow> mat" where
  "np_lstsq n k A B =
     map (\<lambda>i. map (\<lambda>j. (SOME X. is_lstsq n k A B X) ! i ! j) [0..<k]) [0..<n]"

subsection \<open>The estimators\<close>

definition calc_AB_exact :: "'s jacobian_fn \<Rightarrow> 's \<Rightarrow> vec \<Rightarrow> vec \<Rightarrow> error + (mat \<times> 's)" where
  "calc_AB_exact jac s x_nominal u_nominal = jac s x_nominal u_nominal"

text \<open>The loop of \<open>calc_AB_first_order\<close>: \<open>ABhat += jacobian_xu(x_nominal, u_nominal + du[i])\<close>.
  The division \<open>ABhat /= n_samples\<close> that follows it raises nothing; with no
  sample numpy fills the array with \<open>nan\<close>, which is not a real number, so the
  entries the model computes are meaningful for \<open>n_samples \<ge> 1\<close> only.\<close>

fun first_order_loop ::
  "'s jacobian_fn \<Rightarrow> nat \<Rightarrow> nat \<Rightarrow> vec \<Rightarrow> vec \<Rightarrow> mat \<Rightarrow> nat list \<Rightarrow> 's \<Rightarrow> mat
     \<Rightarrow> error + (mat \<times> 's)" where
  "first_order_loop jac n_x n_u x u du [] s ABhat = Inr (ABhat, s)"
| "first_order_loop jac n_x n_u x u du (i # is) s ABhat =
     (case np_add u (du ! i) of Inl e \<Rightarrow> Inl e | Inr ui \<Rightarrow>
      case jac s x ui of Inl e \<Rightarrow> Inl e | Inr (J, s1) \<Rightarrow>
      case bcast_mat n_x (n_x + n_u) J of Inl e \<Rightarrow> Inl e | Inr Jb \<Rightarrow>
        first_order_loop jac n_x n_u x u du is s1 (mat_add ABhat Jb))"

definition calc_AB_first_order ::
  "'s jacobian_fn \<Rightarrow> nat \<Rightarrow> nat \<Rightarrow> 's \<Rightarrow> vec \<Rightarrow> vec \<Rightarrow> nat \<Rightarrow> draw \<Rightarrow> error + (mat \<times> 's)" where
  "calc_AB_first_order jac n_x n_u s x_nominal u_nominal n_samples d =
     (let du = normal_draws n_samples n_u d;
          ABhat = zeros n_x (n_x + n_u)
      in case first_order_loop jac n_x n_u x_nominal u_nominal du [0..<n_samples] s ABhat of
           Inl e \<Rightarrow> Inl e
         | Inr (ABhat, s') \<Rightarrow> Inr (map (map (\<lambda>a. a / real n_samples)) ABhat, s'))"

text \<open>The loop of \<open>calc_B_zero_order\<close>: \<open>x_next[i] = dynamics(x_nominal, u_nominal + du[i])\<close>.\<close>

fun B_zero_order_loop ::
  "'s dynamics_fn \<Rightarrow> nat \<Rightarrow> vec \<Rightarrow> vec \<Rightarrow> mat \<Rightarrow> nat list \<Rightarrow> 's \<Rightarrow> mat \<Rightarrow> error + (mat \<times> 's)" where
  "B_zero_order_loop dyn n_x x u du [] s x_next = Inr (x_next, s)"
| "B_zero_order_loop dyn n_x x u du (i # is) s x_next =
     (case np_add u (du ! i) of Inl e \<Rightarrow> Inl e | Inr ui \<Rightarrow>
      case dyn s x ui False of Inl e \<Rightarrow> Inl e | Inr (y, s1) \<Rightarrow>
      case bcast_row n_x y of Inl e \<Rightarrow> Inl e | Inr row \<Rightarrow>
        B_zero_order_loop dyn n_x x u du is s1 (x_next[i := row]))"

definition calc_B_zero_order ::
  "'s dynamics_fn \<Rightarrow> 's jacobian_fn \<Rightarrow> nat \<Rightarrow> nat \<Rightarrow> 's \<Rightarrow> vec \<Rightarrow> vec \<Rightarrow> nat \<Rightarrow> draw \<Rightarrow> draw
     \<Rightarrow> error + (mat \<times> 's)" where
  "calc_B_zero_order dyn jac n_x n_u s x_nominal u_nominal n_samples d1 d2 =
     (case dyn s x_nominal u_nominal True of Inl e \<Rightarrow> Inl e | Inr (x_next_nominal, s1) \<Rightarrow>
      case calc_AB_first_order jac n_x n_u s1 x_nominal u_nominal n_samples d1 of
        Inl e \<Rightarrow> Inl e
      | Inr (AB_first_order, s2) \<Rightarrow>
         (let ABhat = set_block 0 0 (map (take n_x) AB_first_order) (zeros n_x (n_x + n_u));
              du = normal_draws n_samples n_u d2;
              x_next = zeros n_samples n_x
          in case B_zero_order_loop dyn n_x x_nominal u_nominal du [0..<n_samples] s2 x_next of
               Inl e \<Rightarrow> Inl e
             | Inr (x_next, s3) \<Rightarrow>
                (case sub_rows n_x x_next x_next_nominal of
                   Inl e \<Rightarrow> Inl e
                 | Inr dx_next \<Rightarrow>
                     Inr (set_block 0 n_x (np_transpose n_x (np_lstsq n_u n_x du dx_next)) ABhat,
                          s3))))"

text \<open>The loop of \<open>calc_AB_zero_order\<close>:
  \<open>x_next[i] = dynamics(x_nominal + dx[i], u_nominal + du[i])\<close>.\<close>

fun AB_zero_order_loop ::
  "'s dynamics_fn \<Rightarrow> nat \<Rightarrow> vec \<Rightarrow> vec \<Rightarrow> mat \<Rightarrow> mat \<Rightarrow> nat list \<Rightarrow> 's \<Rightarrow> mat
     \<Rightarrow> error + (mat \<times> 's)" where
  "AB_zero_order_loop dyn n_x x u dx du [] s x_next = Inr (x_next, s)"
| "AB_zero_order_loop dyn n_x x u dx du (i # is) s x_next =
     (case np_add x (dx ! i) of Inl e \<Rightarrow> Inl e | Inr xi \<Rightarrow>
      case np_add u (du ! i) of Inl e \<Rightarrow> Inl e | Inr ui \<Rightarrow>
      case dyn s xi ui False of Inl e \<Rightarrow> Inl e | Inr (y, s1) \<Rightarrow>
      case bcast_row n_x y of Inl e \<Rightarrow> Inl e | Inr row \<Rightarrow>
        AB_zero_order_loop dyn n_x x u dx du is s1 (x_next[i := row]))"

text \<open>The system handed to the solver: \<open>A\<close> and \<open>B\<close> of the source (as in
  \<open>A X = B\<close>), built by the same slice assignments.\<close>

definition zero_order_A :: "nat \<Rightarrow> nat \<Rightarrow> nat \<Rightarrow> mat \<Rightarrow> mat \<Rightarrow> real \<Rightarrow> mat" where
  "zero_order_A n_x n_u n_samples dx du damp =
     (let A = zeros (n_samples + n_x + n_u) (n_x + n_u);
          A = set_block 0 0 dx A;
          A = set_block 0 n_x du A;
          A = set_block n_samples 0 (map (map (\<lambda>a. a * damp)) (eye (n_x + n_u))) A
      in A)"

definition zero_order_B :: "nat \<Rightarrow> nat \<Rightarrow> nat \<Rightarrow> mat \<Rightarrow> mat" where
  "zero_order_B n_x n_u n_samples dx_next =
     (let B = zeros (n_samples + n_x + n_u) n_x;
          B = set_block 0 0 dx_next B
      in B)"

definition calc_AB_zero_order ::
  "'s dynamics_fn \<Rightarrow> nat \<Rightarrow> nat \<Rightarrow> 's \<Rightarrow> vec \<Rightarrow> vec \<Rightarrow> nat \<Rightarrow> draw \<Rightarrow> draw \<Rightarrow> real
     \<Rightarrow> error + (mat \<times> 's)" where
  "calc_AB_zero_order dyn n_x n_u s x_nominal u_nominal n_samples d1 d2 damp =
     (let dx = normal_draws n_samples n_x d1;
          du = normal_draws n_samples n_u d2
      in case dyn s x_nominal u_nominal False of Inl e \<Rightarrow> Inl e | Inr (x_next_nominal, s1) \<Rightarrow>
         case AB_zero_order_loop dyn n_x x_nominal u_nominal dx du [0..<n_samples] s1
                (zeros n_samples n_x) of
           Inl e \<Rightarrow> Inl e
         | Inr (x_next, s2) \<Rightarrow>
            (case sub_rows n_x x_next x_next_nominal of
               Inl e \<Rightarrow> Inl e
             | Inr dx_next \<Rightarrow>
                (let A = zero_order_A n_x n_u n_samples dx du damp;
                     B = zero_order_B n_x n_u n_samples dx_next
                 in Inr (np_transpose n_x (np_lstsq (n_x + n_u) n_x A B), s2))))"

text \<open>\<open>calc_AB_batch\<close>.  \<open>d1 i\<close> and \<open>d2 i\<close> are the first and the second array
  drawn while row \<open>i\<close> is linearized; \<open>calc_AB_zero_order\<close> is called with its
  default damping \<open>1e-10\<close>.  A mode that matches no branch runs no loop.\<close>

fun batch_loop ::
  "('s \<Rightarrow> nat \<Rightarrow> vec \<Rightarrow> vec \<Rightarrow> error + (mat \<times> 's)) \<Rightarrow> nat \<Rightarrow> nat \<Rightarrow> mat \<Rightarrow> mat \<Rightarrow> nat list
     \<Rightarrow> 's \<Rightarrow> mat list \<Rightarrow> error + (mat list \<times> 's)" where
  "batch_loop f n_x n_u xs us [] s ABhat_list = Inr (ABhat_list, s)"
| "batch_loop f n_x n_u xs us (i # is) s ABhat_list =
     (if length us \<le> i then Inl IndexError
      else case f s i (xs ! i) (us ! i) of Inl e \<Rightarrow> Inl e | Inr (M, s1) \<Rightarrow>
           case bcast_mat n_x (n_x + n_u) M of Inl e \<Rightarrow> Inl e | Inr Mb \<Rightarrow>
             batch_loop f n_x n_u xs us is s1 (ABhat_list[i := Mb]))"

definition calc_AB_batch ::
  "'s dynamics_fn \<Rightarrow> 's jacobian_fn \<Rightarrow> nat \<Rightarrow> nat \<Rightarrow> 's \<Rightarrow> mat \<Rightarrow> mat \<Rightarrow> nat
     \<Rightarrow> (nat \<Rightarrow> draw) \<Rightarrow> (nat \<Rightarrow> draw) \<Rightarrow> string \<Rightarrow> error + (mat list \<times> 's)" where
  "calc_AB_batch dyn jac n_x n_u s x_nominals u_nominals n_samples d1 d2 mode =
     (let n = length x_nominals;
          ABhat_list = replicate n (zeros n_x (n_x + n_u))
      in if mode = ''first_order'' then
           batch_loop (\<lambda>s i x u. calc_AB_first_order jac n_x n_u s x u n_samples (d1 i))
             n_x n_u x_nominals u_nominals [0..<n] s ABhat_list
         else if mode = ''zero_order_B'' then
           batch_loop (\<lambda>s i x u. calc_B_zero_order dyn jac n_x n_u s x u n_samples (d1 i) (d2 i))
             n_x n_u x_nominals u_nominals [0..<n] s ABhat_list
         else if mode = ''zero_order_AB'' then
           batch_loop (\<lambda>s i x u. calc_AB_zero_order dyn n_x n_u s x u n_samples (d1 i) (d2 i)
                                   (1 / 10 ^ 10))
             n_x n_u x_nominals u_nominals [0..<n] s ABhat_list
         else if mode = ''exact'' then
           batch_loop (\<lambda>s i x u. calc_AB_exact jac s x u)
             n_x n_u x_nominals u_nominals [0..<n] s ABhat_list
         else Inr (ABhat_list, s))"

section \<open>The multibody adapter's step (irs\_lqr/mbp\_dynamics.py)\<close>

text \<open>
  A Python dict is an association list in insertion order; \<open>d[k] = v\<close> is
  \<open>AList.update\<close>, \<open>d[k]\<close> raises KeyError on a missing key.  Model instances
  are numbered.
\<close>

type_synonym 'v pydict = "(nat \<times> 'v) list"

definition lookup :: "'v pydict \<Rightarrow> nat \<Rightarrow> error + 'v" where
  "lookup d k = (case map_of d k of None \<Rightarrow> Inl KeyError | Some v \<Rightarrow> Inr v)"

text \<open>\<open>x[indices]\<close> with a list of non-negative indices.\<close>

definition take_indices :: "vec \<Rightarrow> nat list \<Rightarrow> error + vec" where
  "take_indices x idx =
     (if list_all (\<lambda>i. i < length x) idx then Inr (map (\<lambda>i. x ! i) idx) else Inl IndexError)"

text \<open>
  What the adapter is built from: the time step, the index bookkeeping and the
  actuated models of the parent class, and the operations of the multibody
  plant and its simulator, which live outside the repository and act on the
  root context \<open>'c\<close>.  \<open>get_q_a_cmd_dict_from_u\<close> is inherited from the parent
  class in \<open>irs_lqr/quasistatic_dynamics.py\<close> and is a parameter as well.
\<close>

record ('c, 'q) mbp_adapter =
  mbp_h :: real
  position_indices :: "nat list pydict"
  num_velocities :: nat
  mbp_models_actuated :: "nat list"
  mbp_get_q_a_cmd_dict_from_u :: "vec \<Rightarrow> error + vec pydict"
  GetModelInstanceByName :: "nat \<Rightarrow> nat"
  SetPositionsAndVelocities :: "'c \<Rightarrow> nat \<Rightarrow> vec \<Rightarrow> 'c"
  EvalQueryObject :: "'c \<Rightarrow> 'q"
  FixValue :: "'c \<Rightarrow> nat \<Rightarrow> vec \<Rightarrow> 'c"
  AdvanceTo :: "'c \<Rightarrow> real \<Rightarrow> 'c"
  GetPositionsAndVelocities :: "'c \<Rightarrow> vec"

text \<open>The mutable attributes of the adapter that \<open>dynamics\<close> touches, next to the
  clock of the automatic-differentiation path, which it leaves alone.  The plant
  context and the scene-graph context are parts of the one root context.\<close>

record ('c, 'q) mbp_state =
  mbp_context :: 'c
  query_object :: 'q
  simulator_time :: real
  simulator_time_ad :: real

fun get_q_dict_items :: "nat \<Rightarrow> vec \<Rightarrow> nat list pydict \<Rightarrow> error + vec pydict" where
  "get_q_dict_items offset x [] = Inr []"
| "get_q_dict_items offset x ((model, n_q_indices) # rest) =
     (case take_indices x n_q_indices of Inl e \<Rightarrow> Inl e | Inr qs \<Rightarrow>
      case take_indices x (map (\<lambda>i. i + offset) n_q_indices) of Inl e \<Rightarrow> Inl e | Inr vs \<Rightarrow>
      case get_q_dict_items offset x rest of Inl e \<Rightarrow> Inl e | Inr d \<Rightarrow>
        Inr ((model, qs @ vs) # d))"

definition get_q_dict_from_x :: "('c, 'q) mbp_adapter \<Rightarrow> vec \<Rightarrow> error + vec pydict" where
  "get_q_dict_from_x self x = get_q_dict_items (num_velocities self) x (position_indices self)"

definition update_mbp_positions_and_velocities ::
  "('c, 'q) mbp_adapter \<Rightarrow> ('c, 'q) mbp_state \<Rightarrow> vec pydict \<Rightarrow> ('c, 'q) mbp_state" where
  "update_mbp_positions_and_velocities self s q_dict =
     (let c = foldl (\<lambda>c (model_instance_idx, q).
                      SetPositionsAndVelocities self c
                        (GetModelInstanceByName self model_instance_idx) q)
                (mbp_context s) q_dict
      in s\<lparr>mbp_context := c, query_object := EvalQueryObject self c\<rparr>)"

fun update_mbp_inputs ::
  "('c, 'q) mbp_adapter \<Rightarrow> 'c \<Rightarrow> vec pydict \<Rightarrow> nat list \<Rightarrow> error + 'c" where
  "update_mbp_inputs self c q_a_dict [] = Inr c"
| "update_mbp_inputs self c q_a_dict (model # rest) =
     (case lookup q_a_dict model of Inl e \<Rightarrow> Inl e
      | Inr v \<Rightarrow> update_mbp_inputs self (FixValue self c model v) q_a_dict rest)"

definition dynamics_py ::
  "('c, 'q) mbp_adapter \<Rightarrow> ('c, 'q) mbp_state \<Rightarrow> vec \<Rightarrow> vec \<Rightarrow> string \<Rightarrow> bool
     \<Rightarrow> error + (vec \<times> ('c, 'q) mbp_state)" where
  "dynamics_py self s x u mode requires_grad =
     (case get_q_dict_from_x self x of Inl e \<Rightarrow> Inl e | Inr q_dict \<Rightarrow>
      case mbp_get_q_a_cmd_dict_from_u self u of Inl e \<Rightarrow> Inl e | Inr q_a_cmd_dict \<Rightarrow>
        (let s1 = update_mbp_positions_and_velocities self s q_dict in
         case update_mbp_inputs self (mbp_context s1) q_a_cmd_dict (mbp_models_actuated self) of
           Inl e \<Rightarrow> Inl e
         | Inr c \<Rightarrow>
            (let s2 = s1\<lparr>mbp_context := c\<rparr>;
                 s3 = s2\<lparr>simulator_time := simulator_time s2 + mbp_h self\<rparr>;
                 s4 = s3\<lparr>mbp_context := AdvanceTo self (mbp_context s3) (simulator_time s3)\<rparr>;
                 x_next = GetPositionsAndVelocities self (mbp_context s4)
             in Inr (x_next, s4))))"

text \<open>\<open>dynamics self\<close> is a \<open>dynamics_fn\<close>: it is what the estimators above call
  on this adapter.\<close>

definition dynamics ::
  "('c, 'q) mbp_adapter \<Rightarrow> ('c, 'q) mbp_state \<Rightarrow> vec \<Rightarrow> vec \<Rightarrow> bool
     \<Rightarrow> error + (vec \<times> ('c, 'q) mbp_state)" where
  "dynamics self s x u requires_grad =
     (case get_q_dict_from_x self x of Inl e \<Rightarrow> Inl e | Inr q_dict \<Rightarrow>
      case mbp_get_q_a_cmd_dict_from_u self u of Inl e \<Rightarrow> Inl e | Inr q_a_cmd_dict \<Rightarrow>
        (let s1 = update_mbp_positions_and_velocities self s q_dict in
         case update_mbp_inputs self (mbp_context s1) q_a_cmd_dict (mbp_models_actuated self) of
           Inl e \<Rightarrow> Inl e
         | Inr c \<Rightarrow>
            (let s2 = s1\<lparr>mbp_context := c\<rparr>;
                 s3 = s2\<lparr>simulator_time := simulator_time s2 + mbp_h self\<rparr>;
                 s4 = s3\<lparr>mbp_context := AdvanceTo self (mbp_context s3) (simulator_time s3)\<rparr>;
                 x_next = GetPositionsAndVelocities self (mbp_context s4)
             in Inr (x_next, s4))))"

section \<open>The quasistatic adapter (two\_spheres\_quasistatic/quasistatic\_dynamics.py)\<close>

text \<open>The attributes set by \<open>__init__\<close> and the operations of the quasistatic
  simulator \<open>q_sim\<close>, whose state is \<open>'s\<close>.  Methods whose names the multibody
  adapter also uses carry the prefix \<open>qs_\<close>.\<close>

record 's quasistatic =
  qs_h :: real
  qs_dim_x :: nat
  position_indices_dict :: "nat list pydict"
  models_actuated :: "nat list"
  n_v_dict :: "nat pydict"
  calc_gravity_for_unactuated_models :: "'s \<Rightarrow> vec pydict"
  get_generalized_force_from_external_spatial_force :: "'s \<Rightarrow> vec pydict"
  update_configuration :: "'s \<Rightarrow> vec pydict \<Rightarrow> 's"
  step :: "'s \<Rightarrow> vec pydict \<Rightarrow> vec pydict \<Rightarrow> real \<Rightarrow> string \<Rightarrow> bool \<Rightarrow> vec pydict \<times> 's"

text \<open>\<open>{**a, **b}\<close>.\<close>

definition dict_merge :: "'v pydict \<Rightarrow> 'v pydict \<Rightarrow> 'v pydict" where
  "dict_merge a b = foldl (\<lambda>d (k, v). AList.update k v d) a b"

fun qs_get_q_dict_items :: "vec \<Rightarrow> nat list pydict \<Rightarrow> error + vec pydict" where
  "qs_get_q_dict_items x [] = Inr []"
| "qs_get_q_dict_items x ((model, n_q_indices) # rest) =
     (case take_indices x n_q_indices of Inl e \<Rightarrow> Inl e | Inr qs \<Rightarrow>
      case qs_get_q_dict_items x rest of Inl e \<Rightarrow> Inl e | Inr d \<Rightarrow> Inr ((model, qs) # d))"

definition qs_get_q_dict_from_x :: "'s quasistatic \<Rightarrow> vec \<Rightarrow> error + vec pydict" where
  "qs_get_q_dict_from_x self x = qs_get_q_dict_items x (position_indices_dict self)"

fun get_q_a_cmd_loop ::
  "'s quasistatic \<Rightarrow> vec \<Rightarrow> nat list \<Rightarrow> nat \<Rightarrow> vec pydict \<Rightarrow> error + vec pydict" where
  "get_q_a_cmd_loop self u [] i_start q_a_cmd_dict = Inr q_a_cmd_dict"
| "get_q_a_cmd_loop self u (model # rest) i_start q_a_cmd_dict =
     (case lookup (n_v_dict self) model of Inl e \<Rightarrow> Inl e
      | Inr n_a_i \<Rightarrow>
          get_q_a_cmd_loop self u rest (i_start + n_a_i)
            (AList.update model (take n_a_i (drop i_start u)) q_a_cmd_dict))"

definition get_q_a_cmd_dict_from_u :: "'s quasistatic \<Rightarrow> vec \<Rightarrow> error + vec pydict" where
  "get_q_a_cmd_dict_from_u self u = get_q_a_cmd_loop self u (models_actuated self) 0 []"

text \<open>\<open>x[n_q_indices] = q_dict[model]\<close>: the value is broadcast to the number of
  indices, a later index wins over an earlier equal one.\<close>

definition put_indices :: "vec \<Rightarrow> nat list \<Rightarrow> vec \<Rightarrow> error + vec" where
  "put_indices x idx v =
     (case bcast_row (length idx) v of Inl e \<Rightarrow> Inl e
      | Inr w \<Rightarrow> if list_all (\<lambda>i. i < length x) idx
                 then Inr (foldl (\<lambda>y (i, a). y[i := a]) x (zip idx w))
                 else Inl IndexError)"

fun get_x_loop :: "vec pydict \<Rightarrow> nat list pydict \<Rightarrow> vec \<Rightarrow> error + vec" where
  "get_x_loop q_dict [] x = Inr x"
| "get_x_loop q_dict ((model, n_q_indices) # rest) x =
     (case lookup q_dict model of Inl e \<Rightarrow> Inl e | Inr v \<Rightarrow>
      case put_indices x n_q_indices v of Inl e \<Rightarrow> Inl e | Inr x' \<Rightarrow>
        get_x_loop q_dict rest x')"

definition get_x_from_q_dict :: "'s quasistatic \<Rightarrow> vec pydict \<Rightarrow> error + vec" where
  "get_x_from_q_dict self q_dict =
     get_x_loop q_dict (position_indices_dict self) (replicate (qs_dim_x self) 0)"

definition qs_dynamics ::
  "'s quasistatic \<Rightarrow> 's \<Rightarrow> vec \<Rightarrow> vec \<Rightarrow> string \<Rightarrow> bool \<Rightarrow> error + (vec \<times> 's)" where
  "qs_dynamics self q_sim x u mode requires_grad =
     (case qs_get_q_dict_from_x self x of Inl e \<Rightarrow> Inl e | Inr q_dict \<Rightarrow>
      case get_q_a_cmd_dict_from_u self u of Inl e \<Rightarrow> Inl e | Inr q_a_cmd_dict \<Rightarrow>
        (let tau_ext_u_dict = calc_gravity_for_unactuated_models self q_sim;
             tau_ext_a_dict = get_generalized_force_from_external_spatial_force self q_sim;
             tau_ext_dict = dict_merge tau_ext_a_dict tau_ext_u_dict;
             q_sim1 = update_configuration self q_sim q_dict;
             (q_next_dict, q_sim2) =
                step self q_sim1 q_a_cmd_dict tau_ext_dict (qs_h self) mode requires_grad
         in case get_x_from_q_dict self q_next_dict of
              Inl e \<Rightarrow> Inl e
            | Inr x_next \<Rightarrow> Inr (x_next, q_sim2)))"

text \<open>The loop of \<open>dynamics_batch\<close>: \<open>x_next[i] = self.dynamics(x[i], u[i])\<close>, with
  the default \<open>mode\<close> and \<open>requires_grad\<close>.\<close>

fun qs_batch_loop ::
  "'s quasistatic \<Rightarrow> mat \<Rightarrow> mat \<Rightarrow> nat list \<Rightarrow> 's \<Rightarrow> mat \<Rightarrow> error + (mat \<times> 's)" where
  "qs_batch_loop self x u [] q_sim x_next = Inr (x_next, q_sim)"
| "qs_batch_loop self x u (i # is) q_sim x_next =
     (if length u \<le> i then Inl IndexError
      else case qs_dynamics self q_sim (x ! i) (u ! i) ''qp_mp'' False of
             Inl e \<Rightarrow> Inl e
           | Inr (y, q_sim1) \<Rightarrow>
              (case bcast_row (qs_dim_x self) y of Inl e \<Rightarrow> Inl e
               | Inr row \<Rightarrow> qs_batch_loop self x u is q_sim1 (x_next[i := row])))"

definition qs_dynamics_batch ::
  "'s quasistatic \<Rightarrow> 's \<Rightarrow> mat \<Rightarrow> mat \<Rightarrow> error + (mat \<times> 's)" where
  "qs_dynamics_batch self q_sim x u =
     (let n_batch = length x;
          x_next = zeros n_batch (qs_dim_x self)
      in qs_batch_loop self x u [0..<n_batch] q_sim x_next)"

text \<open>The reading of the specification: the single-pair calls made one after the
  other on the pairs of a batch, each on the simulator the previous one left,
  with their results in order.\<close>

fun dynamics_each ::
  "'s quasistatic \<Rightarrow> 's \<Rightarrow> (vec \<times> vec) list \<Rightarrow> error + (mat \<times> 's)" where
  "dynamics_each self q_sim [] = Inr ([], q_sim)"
| "dynamics_each self q_sim ((x, u) # rest) =
     (case qs_dynamics self q_sim x u ''qp_mp'' False of Inl e \<Rightarrow> Inl e
      | Inr (y, q_sim1) \<Rightarrow>
          (case dynamics_each self q_sim1 rest of Inl e \<Rightarrow> Inl e
           | Inr (ys, q_sim2) \<Rightarrow> Inr (y # ys, q_sim2)))"

section \<open>The estimators as the specification words them\<close>

text \<open>The adapter's \<open>dynamics\<close> computes the one-step map \<open>f\<close>: on a state of
  \<open>n_x\<close> and a control of \<open>n_u\<close> entries it returns \<open>f x u\<close>, of \<open>n_x\<close> entries,
  whatever the flag and the simulator's hidden state, which it may change.\<close>

definition one_step_dynamics ::
  "nat \<Rightarrow> nat \<Rightarrow> 's dynamics_fn \<Rightarrow> (vec \<Rightarrow> vec \<Rightarrow> vec) \<Rightarrow> bool" where
  "one_step_dynamics n_x n_u dyn f =
     (\<forall>s x u requires_grad. length x = n_x \<and> length u = n_u
        \<longrightarrow> length (f x u) = n_x \<and> (\<exists>s'. dyn s x u requires_grad = Inr (f x u, s')))"

text \<open>Likewise \<open>jacobian_xu\<close> computes the exact Jacobian \<open>J\<close>, of shape
  \<open>(n_x, n_x + n_u)\<close>.\<close>

definition exact_jacobian ::
  "nat \<Rightarrow> nat \<Rightarrow> 's jacobian_fn \<Rightarrow> (vec \<Rightarrow> vec \<Rightarrow> mat) \<Rightarrow> bool" where
  "exact_jacobian n_x n_u jac J =
     (\<forall>s x u. length x = n_x \<and> length u = n_u
        \<longrightarrow> shape n_x (n_x + n_u) (J x u) \<and> (\<exists>s'. jac s x u = Inr (J x u, s')))"

text \<open>Sample \<open>i\<close> of a draw of \<open>m\<close>-vectors, and a nominal vector perturbed by it.\<close>

definition sample :: "nat \<Rightarrow> draw \<Rightarrow> nat \<Rightarrow> vec" where
  "sample m d i = map (d i) [0..<m]"

definition perturbed :: "vec \<Rightarrow> draw \<Rightarrow> nat \<Rightarrow> vec" where
  "perturbed v d i = map2 (+) v (sample (length v) d i)"

text \<open>The arithmetic mean of \<open>n\<close> matrices of shape \<open>(r, c)\<close>.\<close>

definition mean_matrix :: "nat \<Rightarrow> nat \<Rightarrow> nat \<Rightarrow> (nat \<Rightarrow> mat) \<Rightarrow> mat" where
  "mean_matrix r c n Js =
     map (\<lambda>a. map (\<lambda>b. (\<Sum>i<n. Js i ! a ! b) / real n) [0..<c]) [0..<r]"

text \<open>The stacked, damped system: \<open>n\<close> rows \<open>[dx_i, du_i]\<close> over \<open>n_x + n_u\<close> rows
  \<open>damp \<cdot> I\<close>, against the deviations of the next state over rows of zeros.\<close>

definition stacked_lhs :: "nat \<Rightarrow> nat \<Rightarrow> nat \<Rightarrow> draw \<Rightarrow> draw \<Rightarrow> real \<Rightarrow> mat" where
  "stacked_lhs n_x n_u n d1 d2 damp =
     map (\<lambda>i. sample n_x d1 i @ sample n_u d2 i) [0..<n]
     @ map (\<lambda>i. map (\<lambda>j. if i = j then damp else 0) [0..<n_x + n_u]) [0..<n_x + n_u]"

definition stacked_rhs ::
  "nat \<Rightarrow> nat \<Rightarrow> nat \<Rightarrow> (vec \<Rightarrow> vec \<Rightarrow> vec) \<Rightarrow> vec \<Rightarrow> vec \<Rightarrow> draw \<Rightarrow> draw \<Rightarrow> mat" where
  "stacked_rhs n_x n_u n f x u d1 d2 =
     map (\<lambda>i. map2 (-) (f (perturbed x d1 i) (perturbed u d2 i)) (f x u)) [0..<n]
     @ replicate (n_x + n_u) (replicate n_x 0)"

text \<open>The regression of the B-only estimator: output deviations at the
  perturbed controls, the state held at the nominal one.\<close>

definition control_deviations ::
  "nat \<Rightarrow> (vec \<Rightarrow> vec \<Rightarrow> vec) \<Rightarrow> vec \<Rightarrow> vec \<Rightarrow> draw \<Rightarrow> mat" where
  "control_deviations n f x u d =
     map (\<lambda>i. map2 (-) (f x (perturbed u d i)) (f x u)) [0..<n]"

text \<open>\<open>[A, B]\<close>: the blocks side by side.\<close>

definition hstack :: "mat \<Rightarrow> mat \<Rightarrow> mat" where
  "hstack A B = map2 (@) A B"

text \<open>Exactly linear dynamics \<open>f(x, u) = A x + B u\<close>.\<close>

definition mat_vec :: "mat \<Rightarrow> vec \<Rightarrow> vec" where
  "mat_vec M v = map (\<lambda>r. dot r v) M"

definition linear_dynamics :: "mat \<Rightarrow> mat \<Rightarrow> vec \<Rightarrow> vec \<Rightarrow> vec" where
  "linear_dynamics A B x u = map2 (+) (mat_vec A x) (mat_vec B u)"


section \<open>Concrete instances\<close>

text \<open>A one-model plant whose context is the state vector itself and whose
  simulator leaves it unchanged.\<close>

definition adapter0 :: "(vec, unit) mbp_adapter" where
  "adapter0 =
     \<lparr>mbp_h = 1 / 10, position_indices = [(0, [0])], num_velocities = 1,
      mbp_models_actuated = [0], mbp_get_q_a_cmd_dict_from_u = (\<lambda>u. Inr [(0, u)]),
      GetModelInstanceByName = (\<lambda>m. m), SetPositionsAndVelocities = (\<lambda>c m q. q),
      EvalQueryObject = (\<lambda>c. ()), FixValue = (\<lambda>c m v. c), AdvanceTo = (\<lambda>c t. c),
      GetPositionsAndVelocities = (\<lambda>c. c)\<rparr>"

definition state0 :: "(vec, unit) mbp_state" where
  "state0 = \<lparr>mbp_context = [0, 0], query_object = (), simulator_time = 0,
             simulator_time_ad = 0\<rparr>"

text \<open>A two-model quasistatic system whose simulator counts its steps: the next
  configuration is the step count and the commanded position.\<close>

definition quasistatic0 :: "nat quasistatic" where
  "quasistatic0 =
     \<lparr>qs_h = 1 / 10, qs_dim_x = 2, position_indices_dict = [(0, [0]), (1, [1])],
      models_actuated = [1], n_v_dict = [(0, 1), (1, 1)],
      calc_gravity_for_unactuated_models = (\<lambda>s. [(0, [0])]),
      get_generalized_force_from_external_spatial_force = (\<lambda>s. [(1, [0])]),
      update_configuration = (\<lambda>s d. s),
      step = (\<lambda>s q_a tau h mode rg.
                ([(0, [real s]), (1, case map_of q_a 1 of Some v \<Rightarrow> v | None \<Rightarrow> [0])], Suc s))\<rparr>"

text \<open>Adapters whose hidden state counts the calls made to them.\<close>

definition counting_dyn :: "(vec \<Rightarrow> vec \<Rightarrow> vec) \<Rightarrow> nat dynamics_fn" where
  "counting_dyn f s x u requires_grad = Inr (f x u, Suc s)"

definition counting :: "(vec \<Rightarrow> vec \<Rightarrow> mat) \<Rightarrow> nat jacobian_fn" where
  "counting J s x u = Inr (J x u, Suc s)"

text \<open>A scalar system \<open>x' = 3 x + 2 u\<close>, a Jacobian that varies with the control,
  and draws that vary with the sample.\<close>

definition f0 :: "vec \<Rightarrow> vec \<Rightarrow> vec" where
  "f0 = linear_dynamics [[3]] [[2]]"

definition J0 :: "vec \<Rightarrow> vec \<Rightarrow> mat" where
  "J0 x u = [[3, hd u]]"

definition draw0 :: draw where
  "draw0 i j = real i"

definition draw1 :: draw where
  "draw1 i j = 1 - real i"

section \<open>Facts about the pendulum\<close>

lemma np_add_same_length:
  "length v = length w \<Longrightarrow> np_add v w = Inr (map2 (+) v w)"
  by (simp add: np_add_def broadcast2_def)

lemma dynamics_batch_np_rows:
  assumes "2 \<le> ncols x" "1 \<le> ncols u" "length (rows x) = length (rows u)"
  shows "dynamics_batch_np dt x u =
           Inr \<lparr>ncols = 2,
                rows = map2 (\<lambda>r q. [r ! 0 + dt * (r ! 1 + dt * (- sin (r ! 0) + q ! 0)),
                                     r ! 1 + dt * (- sin (r ! 0) + q ! 0)])
                         (rows x) (rows u)\<rparr>"
proof -
  define angle where "angle = map (\<lambda>r. r ! 0) (rows x)"
  define speed where "speed = map (\<lambda>r. r ! 1) (rows x)"
  define torque where "torque = map (\<lambda>r. r ! 0) (rows u)"
  define acc where "acc = map2 (+) (map (\<lambda>a. - sin a) angle) torque"
  define next_speed where "next_speed = map2 (+) speed (map (\<lambda>a. dt * a) acc)"
  define next_angle where "next_angle = map2 (+) angle (map (\<lambda>a. dt * a) next_speed)"
  have len: "length angle = length (rows x)" "length speed = length (rows x)"
    "length torque = length (rows x)" "length acc = length (rows x)"
    "length next_speed = length (rows x)" "length next_angle = length (rows x)"
    using assms(3)
    by (simp_all add: angle_def speed_def torque_def acc_def next_speed_def next_angle_def)
  have c: "col x 0 = Inr angle" "col x (Suc 0) = Inr speed" "col u 0 = Inr torque"
    using assms by (simp_all add: col_def angle_def speed_def torque_def)
  have a1: "np_add (map (\<lambda>a. - sin a) angle) torque = Inr acc"
    unfolding acc_def by (rule np_add_same_length) (simp add: len)
  have a2: "np_add speed (map (\<lambda>a. dt * a) acc) = Inr next_speed"
    unfolding next_speed_def by (rule np_add_same_length) (simp add: len)
  have a3: "np_add angle (map (\<lambda>a. dt * a) next_speed) = Inr next_angle"
    unfolding next_angle_def by (rule np_add_same_length) (simp add: len)
  have res: "dynamics_batch_np dt x u
               = Inr \<lparr>ncols = 2, rows = map2 (\<lambda>a s. [a, s]) next_angle next_speed\<rparr>"
    by (simp add: dynamics_batch_np_def c a1 a2 a3)
  have "map2 (\<lambda>a s. [a, s]) next_angle next_speed
        = map2 (\<lambda>r q. [r ! 0 + dt * (r ! 1 + dt * (- sin (r ! 0) + q ! 0)),
                        r ! 1 + dt * (- sin (r ! 0) + q ! 0)])
            (rows x) (rows u)"
  proof (rule nth_equalityI)
    show "length (map2 (\<lambda>a s. [a, s]) next_angle next_speed)
          = length (map2 (\<lambda>r q. [r ! 0 + dt * (r ! 1 + dt * (- sin (r ! 0) + q ! 0)),
                        r ! 1 + dt * (- sin (r ! 0) + q ! 0)]) (rows x) (rows u))"
      using assms(3) by (simp add: len)
  next
    fix i assume "i < length (map2 (\<lambda>a s. [a, s]) next_angle next_speed)"
    then have i: "i < length (rows x)" "i < length (rows u)"
      using assms(3) by (simp_all add: len)
    have ac: "acc ! i = - sin (rows x ! i ! 0) + rows u ! i ! 0"
      using i by (simp add: acc_def angle_def torque_def)
    have ns: "next_speed ! i = rows x ! i ! 1 + dt * acc ! i"
      using i assms(3) by (simp add: next_speed_def speed_def len)
    have na: "next_angle ! i = rows x ! i ! 0 + dt * next_speed ! i"
      using i assms(3) by (simp add: next_angle_def angle_def len)
    show "map2 (\<lambda>a s. [a, s]) next_angle next_speed ! i
          = map2 (\<lambda>r q. [r ! 0 + dt * (r ! 1 + dt * (- sin (r ! 0) + q ! 0)),
                        r ! 1 + dt * (- sin (r ! 0) + q ! 0)]) (rows x) (rows u) ! i"
      using i by (simp add: len ac ns na)
  qed
  with res show ?thesis by simp
qed

lemma dynamics_np_row:
  assumes "2 \<le> length r" "1 \<le> length q"
  shows "dynamics_np dt r q =
           Inr [r ! 0 + dt * (r ! 1 + dt * (- sin (r ! 0) + q ! 0)),
                r ! 1 + dt * (- sin (r ! 0) + q ! 0)]"
proof -
  have "item r 0 = Inr (r ! 0)" "item r (Suc 0) = Inr (r ! 1)" "item q 0 = Inr (q ! 0)"
    using assms by (auto simp: item_def)
  then show ?thesis by (simp add: dynamics_np_def Let_def)
qed

lemma dynamics_batch_torch_pendulum:
  assumes "ncols x = pendulum_dim_x"
  shows "dynamics_batch_torch dt x u = Inl IndexError"
  using assms by (simp add: dynamics_batch_torch_def col_def pendulum_dim_x_def)

section \<open>Facts about the quasistatic adapter\<close>

lemma put_indices_length: "put_indices x idx v = Inr x' \<Longrightarrow> length x' = length x"
proof -
  have "length (foldl (\<lambda>y (i, a). y[i := a]) x ps) = length x" for ps :: "(nat \<times> real) list"
    by (induction ps arbitrary: x) (auto split: prod.splits)
  then show "put_indices x idx v = Inr x' \<Longrightarrow> length x' = length x"
    by (auto simp: put_indices_def split: sum.splits if_splits)
qed

lemma get_x_loop_length: "get_x_loop d items x = Inr x' \<Longrightarrow> length x' = length x"
  by (induction d items x rule: get_x_loop.induct)
     (auto split: sum.splits dest: put_indices_length)

lemma qs_dynamics_length:
  "qs_dynamics self q x u mode rg = Inr (y, q') \<Longrightarrow> length y = qs_dim_x self"
  by (auto simp: qs_dynamics_def get_x_from_q_dict_def Let_def
      split: sum.splits prod.splits dest: get_x_loop_length)

text \<open>The loop from index \<open>k\<close> on: the rows below \<open>k\<close> stay, the others are the
  results of the remaining single calls.\<close>

lemma qs_batch_loop_each:
  assumes "length acc = n" "length x = n" "n \<le> length u" "k \<le> n"
  shows "qs_batch_loop self x u [k..<n] q acc =
           (case dynamics_each self q (zip (drop k x) (drop k u)) of
              Inl e \<Rightarrow> Inl e
            | Inr (ys, q') \<Rightarrow> Inr (take k acc @ ys, q'))"
  using assms
proof (induction "n - k" arbitrary: k q acc)
  case 0
  then show ?case by simp
next
  case (Suc m)
  then have k: "k < n" by simp
  have upt: "[k..<n] = k # [Suc k..<n]" using k by (simp add: upt_conv_Cons)
  have dx: "drop k x = x ! k # drop (Suc k) x" using k Suc.prems by (simp add: Cons_nth_drop_Suc)
  have du: "drop k u = u ! k # drop (Suc k) u" using k Suc.prems by (simp add: Cons_nth_drop_Suc)
  show ?case
  proof (cases "qs_dynamics self q (x ! k) (u ! k) ''qp_mp'' False")
    case (Inl e)
    then show ?thesis using k Suc.prems by (simp add: upt dx du)
  next
    case (Inr p)
    obtain y q1 where p: "p = (y, q1)" by (cases p)
    have ly: "length y = qs_dim_x self" using Inr p by (auto dest: qs_dynamics_length)
    have b: "bcast_row (qs_dim_x self) y = Inr y" using ly by (simp add: bcast_row_def)
    have IH: "qs_batch_loop self x u [Suc k..<n] q1 (acc[k := y]) =
           (case dynamics_each self q1 (zip (drop (Suc k) x) (drop (Suc k) u)) of
              Inl e \<Rightarrow> Inl e
            | Inr (ys, q') \<Rightarrow> Inr (take (Suc k) (acc[k := y]) @ ys, q'))"
      using Suc.hyps(1)[of "Suc k" "acc[k := y]" q1] Suc.hyps(2) Suc.prems k by simp
    have tk: "take (Suc k) (acc[k := y]) = take k acc @ [y]"
      using k Suc.prems by (simp add: take_Suc_conv_app_nth)
    show ?thesis
      using k Suc.prems Inr p b IH tk
      by (simp add: upt dx du split: sum.splits prod.splits)
  qed
qed

lemma qs_dynamics_batch_each:
  assumes "length x = length u"
  shows "qs_dynamics_batch self q x u = dynamics_each self q (zip x u)"
  using qs_batch_loop_each [of "zeros (length x) (qs_dim_x self)" "length x" x u 0 self q] assms
  by (simp add: qs_dynamics_batch_def zeros_def Let_def split: sum.splits prod.splits)

text \<open>
  Claim C5.  On a batch of pairs \<open>(x_i, u_i)\<close>, the batch dynamics is the
  elementwise sequence of the single-pair calls.  For the pendulum, row \<open>i\<close> of
  \<open>dynamics_batch_np\<close> is \<open>dynamics_np\<close> of row \<open>i\<close> of the states and row \<open>i\<close> of the
  controls.  For the quasistatic adapter, \<open>dynamics_batch\<close> returns the results
  of the single \<open>dynamics\<close> calls made in order on the pairs, and leaves the
  simulator as they leave it.
\<close>

theorem batch_dynamics_is_elementwise:
  assumes "wf_ndarray x" "wf_ndarray u" "2 \<le> ncols x" "1 \<le> ncols u"
      and "length (rows x) = length (rows u)"
      and "length xs = length us"
  shows "(\<exists>R. dynamics_batch_np dt x u = Inr \<lparr>ncols = 2, rows = R\<rparr>
              \<and> length R = length (rows x)
              \<and> (\<forall>i<length (rows x). dynamics_np dt (rows x ! i) (rows u ! i) = Inr (R ! i)))
         \<and> qs_dynamics_batch self q xs us = dynamics_each self q (zip xs us)"
proof
  let ?R = "map2 (\<lambda>r q. [r ! 0 + dt * (r ! 1 + dt * (- sin (r ! 0) + q ! 0)),
                          r ! 1 + dt * (- sin (r ! 0) + q ! 0)]) (rows x) (rows u)"
  have batch: "dynamics_batch_np dt x u = Inr \<lparr>ncols = 2, rows = ?R\<rparr>"
    using assms(3,4,5) by (rule dynamics_batch_np_rows)
  have len: "length ?R = length (rows x)" using assms(5) by simp
  have row: "dynamics_np dt (rows x ! i) (rows u ! i) = Inr (?R ! i)" if "i < length (rows x)" for i
  proof -
    have "length (rows x ! i) = ncols x" "length (rows u ! i) = ncols u"
      using that assms(1,2,5) by (simp_all add: wf_ndarray_def list_all_length)
    then have "2 \<le> length (rows x ! i)" "1 \<le> length (rows u ! i)"
      using assms(3,4) by simp_all
    then show ?thesis
      using that assms(5) by (simp add: dynamics_np_row)
  qed
  show "\<exists>R. dynamics_batch_np dt x u = Inr \<lparr>ncols = 2, rows = R\<rparr>
              \<and> length R = length (rows x)
              \<and> (\<forall>i<length (rows x). dynamics_np dt (rows x ! i) (rows u ! i) = Inr (R ! i))"
    using batch len row by blast
  show "qs_dynamics_batch self q xs us = dynamics_each self q (zip xs us)"
    using assms(6) by (rule qs_dynamics_batch_each)
qed

lemma quasistatic0_first_call: "qs_dynamics quasistatic0 0 [0, 0] [7] ''qp_mp'' False = Inr ([0, 7], 1)"
  by (simp add: qs_dynamics_def quasistatic0_def qs_get_q_dict_from_x_def take_indices_def
      get_q_a_cmd_dict_from_u_def lookup_def get_x_from_q_dict_def put_indices_def bcast_row_def
      dict_merge_def Let_def eval_nat_numeral)

lemma quasistatic0_second_call: "qs_dynamics quasistatic0 (Suc 0) [1, 1] [8] ''qp_mp'' False = Inr ([1, 8], 2)"
  by (simp add: qs_dynamics_def quasistatic0_def qs_get_q_dict_from_x_def take_indices_def
      get_q_a_cmd_dict_from_u_def lookup_def get_x_from_q_dict_def put_indices_def bcast_row_def
      dict_merge_def Let_def eval_nat_numeral)

theorem batch_dynamics_is_elementwise_witness:
  "wf_ndarray \<lparr>ncols = 2, rows = [[0, 1], [0, 3]]\<rparr>
   \<and> wf_ndarray \<lparr>ncols = 1, rows = [[2], [4]]\<rparr>
   \<and> dynamics_batch_np (1 / 2) \<lparr>ncols = 2, rows = [[0, 1], [0, 3]]\<rparr> \<lparr>ncols = 1, rows = [[2], [4]]\<rparr>
       = Inr \<lparr>ncols = 2, rows = [[1, 2], [5 / 2, 5]]\<rparr>
   \<and> dynamics_np (1 / 2) [0, 1] [2] = Inr [1, 2]
   \<and> dynamics_np (1 / 2) [0, 3] [4] = Inr [5 / 2, 5]
   \<and> dynamics_each quasistatic0 0 (zip [[0, 0], [1, 1]] [[7], [8]]) = Inr ([[0, 7], [1, 8]], 2)
   \<and> qs_dynamics_batch quasistatic0 0 [[0, 0], [1, 1]] [[7], [8]] = Inr ([[0, 7], [1, 8]], 2)"
proof -
  let ?x = "\<lparr>ncols = 2, rows = [[0, 1], [0, 3]]\<rparr>"
  let ?u = "\<lparr>ncols = 1, rows = [[2], [4]]\<rparr>"
  have wx: "wf_ndarray ?x" and wu: "wf_ndarray ?u" by (simp_all add: wf_ndarray_def)
  have cx: "2 \<le> ncols ?x" and cu: "1 \<le> ncols ?u" by simp_all
  have lr: "length (rows ?x) = length (rows ?u)" by simp
  have ll: "length [[0, 0], [1, 1 :: real]] = length [[7], [8 :: real]]" by simp
  note inst = batch_dynamics_is_elementwise [OF wx wu cx cu lr ll, of "1 / 2" quasistatic0 0]
  have np: "dynamics_batch_np (1 / 2) ?x ?u = Inr \<lparr>ncols = 2, rows = [[1, 2], [5 / 2, 5]]\<rparr>"
    by (simp add: dynamics_batch_np_def col_def np_add_def broadcast2_def)
  have r0: "dynamics_np (1 / 2) [0, 1] [2] = Inr [1, 2]"
    and r1: "dynamics_np (1 / 2) [0, 3] [4] = Inr [5 / 2, 5]"
    by (simp_all add: dynamics_np_def item_def Let_def)
  have each: "dynamics_each quasistatic0 0 (zip [[0, 0], [1, 1]] [[7], [8]])
                = Inr ([[0, 7], [1, 8]], 2)"
    by (simp add: quasistatic0_first_call quasistatic0_second_call)
  from inst each have "qs_dynamics_batch quasistatic0 0 [[0, 0], [1, 1]] [[7], [8]]
                = Inr ([[0, 7], [1, 8]], 2)" by simp
  with wx wu np r0 r1 each show ?thesis by simp
qed

text \<open>
  Claim C10.  \<open>dynamics_batch_torch\<close> reads state columns 2, 3, 4 and control
  column 1.  On every batch of the declared dimensions of the class (two state
  columns, one control column) it raises the index error and returns nothing,
  while \<open>dynamics_batch_np\<close> returns a batch on the same input; the two never agree.
\<close>

theorem torch_batch_fails_on_pendulum:
  assumes "pendulum_batch x u"
  shows "dynamics_batch_torch dt x u = Inl IndexError
         \<and> (\<exists>y. dynamics_batch_np dt x u = Inr y)
         \<and> dynamics_batch_torch dt x u \<noteq> dynamics_batch_np dt x u"
proof -
  have dims: "ncols x = pendulum_dim_x" "2 \<le> ncols x" "1 \<le> ncols u"
    "length (rows x) = length (rows u)"
    using assms by (simp_all add: pendulum_batch_def pendulum_dim_x_def pendulum_dim_u_def)
  have t: "dynamics_batch_torch dt x u = Inl IndexError"
    using dims(1) by (rule dynamics_batch_torch_pendulum)
  obtain y where n: "dynamics_batch_np dt x u = Inr y"
    using dynamics_batch_np_rows [OF dims(2,3,4)] by blast
  from t n show ?thesis by simp
qed

theorem torch_batch_fails_on_pendulum_witness:
  "pendulum_batch \<lparr>ncols = 2, rows = [[0, 1]]\<rparr> \<lparr>ncols = 1, rows = [[2]]\<rparr>
   \<and> dynamics_batch_torch (1 / 2) \<lparr>ncols = 2, rows = [[0, 1]]\<rparr> \<lparr>ncols = 1, rows = [[2]]\<rparr>
       = Inl IndexError
   \<and> dynamics_batch_np (1 / 2) \<lparr>ncols = 2, rows = [[0, 1]]\<rparr> \<lparr>ncols = 1, rows = [[2]]\<rparr>
       = Inr \<lparr>ncols = 2, rows = [[1, 2]]\<rparr>"
proof -
  have h: "pendulum_batch \<lparr>ncols = 2, rows = [[0, 1]]\<rparr> \<lparr>ncols = 1, rows = [[2]]\<rparr>"
    by (simp add: pendulum_batch_def wf_ndarray_def pendulum_dim_x_def pendulum_dim_u_def)
  have np: "dynamics_batch_np (1 / 2) \<lparr>ncols = 2, rows = [[0, 1]]\<rparr> \<lparr>ncols = 1, rows = [[2]]\<rparr>
              = Inr \<lparr>ncols = 2, rows = [[1, 2]]\<rparr>"
    by (simp add: dynamics_batch_np_def col_def np_add_def broadcast2_def)
  show ?thesis
    using h np torch_batch_fails_on_pendulum [OF h, of "1 / 2"] by simp
qed

section \<open>Facts about the multibody adapter\<close>

lemma update_positions_keeps_clocks:
  "simulator_time (update_mbp_positions_and_velocities self s d) = simulator_time s"
  "simulator_time_ad (update_mbp_positions_and_velocities self s d) = simulator_time_ad s"
  by (simp_all add: update_mbp_positions_and_velocities_def Let_def)

lemma dynamics_advances_clock:
  assumes "dynamics self s x u rg = Inr (y, s')"
  shows "simulator_time s' = simulator_time s + mbp_h self"
    and "simulator_time_ad s' = simulator_time_ad s"
  using assms
  by (auto simp: dynamics_def Let_def update_positions_keeps_clocks split: sum.splits)

text \<open>
  Claim C9.  \<open>dynamics_py\<close> and \<open>dynamics\<close> are the same function of the adapter
  state, \<open>x\<close> and \<open>u\<close>: whatever \<open>mode\<close> and the two \<open>requires_grad\<close> flags are,
  they return the same next state and the same adapter state (or raise the
  same exception), and a call that returns has advanced \<open>simulator_time\<close> by
  exactly \<open>h\<close>.
\<close>

theorem dynamics_py_is_dynamics:
  "dynamics_py self s x u mode rg = dynamics self s x u rg'
   \<and> (\<forall>y s'. dynamics self s x u rg' = Inr (y, s')
        \<longrightarrow> simulator_time s' = simulator_time s + mbp_h self)"
proof
  show "dynamics_py self s x u mode rg = dynamics self s x u rg'"
    by (simp add: dynamics_py_def dynamics_def)
  show "\<forall>y s'. dynamics self s x u rg' = Inr (y, s')
          \<longrightarrow> simulator_time s' = simulator_time s + mbp_h self"
    using dynamics_advances_clock(1) by blast
qed

theorem dynamics_py_is_dynamics_witness:
  "dynamics adapter0 state0 [1, 2] [3] True
     = Inr ([1, 2], state0\<lparr>mbp_context := [1, 2], simulator_time := 1 / 10\<rparr>)
   \<and> dynamics_py adapter0 state0 [1, 2] [3] ''qp_mp'' False
     = Inr ([1, 2], state0\<lparr>mbp_context := [1, 2], simulator_time := 1 / 10\<rparr>)
   \<and> simulator_time (state0\<lparr>mbp_context := [1, 2], simulator_time := 1 / 10\<rparr>)
     = simulator_time state0 + mbp_h adapter0"
proof -
  have d: "dynamics adapter0 state0 [1, 2] [3] True
             = Inr ([1, 2], state0\<lparr>mbp_context := [1, 2], simulator_time := 1 / 10\<rparr>)"
    by (simp add: dynamics_def adapter0_def state0_def get_q_dict_from_x_def take_indices_def
        update_mbp_positions_and_velocities_def lookup_def Let_def)
  from dynamics_py_is_dynamics [of adapter0 state0 "[1, 2]" "[3]" "''qp_mp''" False True] d
  show ?thesis by simp
qed

section \<open>Facts about the estimators\<close>

lemma shape_nth: "shape n m M \<Longrightarrow> i < n \<Longrightarrow> length (M ! i) = m"
  by (simp add: shape_def list_all_length)

lemma shape_length: "shape n m M \<Longrightarrow> length M = n"
  by (simp add: shape_def)

lemma shapeI: "length M = n \<Longrightarrow> (\<And>i. i < n \<Longrightarrow> length (M ! i) = m) \<Longrightarrow> shape n m M"
  by (simp add: shape_def list_all_length)

lemma shape_tabulate: "shape n m (map (\<lambda>a. map (g a) [0..<m]) [0..<n])"
  by (rule shapeI) simp_all

lemma shape_eq_tabulate:
  assumes "shape n m M"
  shows "M = map (\<lambda>a. map (\<lambda>b. M ! a ! b) [0..<m]) [0..<n]"
proof (rule nth_equalityI)
  show "length M = length (map (\<lambda>a. map (\<lambda>b. M ! a ! b) [0..<m]) [0..<n])"
    using assms by (simp add: shape_def)
next
  fix i assume "i < length M"
  then have i: "i < n" using assms by (simp add: shape_def)
  have "M ! i = map (\<lambda>b. M ! i ! b) [0..<m]"
    using shape_nth [OF assms i] by (intro nth_equalityI) simp_all
  then show "M ! i = map (\<lambda>a. map (\<lambda>b. M ! a ! b) [0..<m]) [0..<n] ! i"
    using i by simp
qed

lemma shape_zeros: "shape n m (zeros n m)"
  by (simp add: shape_def zeros_def list_all_length)

lemma zeros_nth: "a < n \<Longrightarrow> b < m \<Longrightarrow> zeros n m ! a ! b = 0"
  by (simp add: zeros_def)

lemma bcast_mat_shape: "shape n m J \<Longrightarrow> bcast_mat n m J = Inr J"
  by (auto simp: bcast_mat_def shape_def list_all_iff intro!: map_idI)

lemma bcast_row_same: "length v = m \<Longrightarrow> bcast_row m v = Inr v"
  by (simp add: bcast_row_def)

lemma mat_add_tabulate:
  assumes "shape n m M" "shape n m N"
  shows "mat_add M N = map (\<lambda>a. map (\<lambda>b. M ! a ! b + N ! a ! b) [0..<m]) [0..<n]"
proof (rule nth_equalityI)
  show "length (mat_add M N) = length (map (\<lambda>a. map (\<lambda>b. M ! a ! b + N ! a ! b) [0..<m]) [0..<n])"
    using assms by (simp add: mat_add_def shape_def)
next
  fix i assume "i < length (mat_add M N)"
  then have i: "i < n" using assms by (simp add: mat_add_def shape_def)
  have l: "length (M ! i) = m" "length (N ! i) = m" "length M = n" "length N = n"
    using assms i by (simp_all add: shape_nth shape_length)
  have "map2 (+) (M ! i) (N ! i) = map (\<lambda>b. M ! i ! b + N ! i ! b) [0..<m]"
    using l by (intro nth_equalityI) simp_all
  then show "mat_add M N ! i = map (\<lambda>a. map (\<lambda>b. M ! a ! b + N ! a ! b) [0..<m]) [0..<n] ! i"
    using i l by (simp add: mat_add_def)
qed

lemma normal_draws_nth: "i < n \<Longrightarrow> normal_draws n m d ! i = sample m d i"
  by (simp add: normal_draws_def sample_def)

lemma length_sample: "length (sample m d i) = m"
  by (simp add: sample_def)

lemma np_add_perturbed:
  "i < n \<Longrightarrow> np_add v (normal_draws n (length v) d ! i) = Inr (perturbed v d i)"
  by (simp add: normal_draws_nth perturbed_def np_add_same_length length_sample)

lemma length_perturbed: "length (perturbed v d i) = length v"
  by (simp add: perturbed_def length_sample)

lemma first_order_loop_sum:
  assumes J: "exact_jacobian n_x n_u jac J" and x: "length x = n_x" and u: "length u = n_u"
    and acc: "shape n_x (n_x + n_u) acc" and k: "k \<le> n"
  shows "\<exists>s'. first_order_loop jac n_x n_u x u (normal_draws n n_u d) [k..<n] s acc =
           Inr (map (\<lambda>a. map (\<lambda>b. acc ! a ! b + (\<Sum>i = k..<n. J x (perturbed u d i) ! a ! b))
                          [0..<n_x + n_u]) [0..<n_x], s')"
  using acc k
proof (induction "n - k" arbitrary: k s acc)
  case 0
  then have "k = n" by simp
  then show ?case using shape_eq_tabulate [OF "0.prems"(1)] by simp
next
  case (Suc m)
  then have k: "k < n" by simp
  have upt: "[k..<n] = k # [Suc k..<n]" using k by (simp add: upt_conv_Cons)
  let ?ui = "perturbed u d k"
  have ui: "np_add u (normal_draws n n_u d ! k) = Inr ?ui"
    using np_add_perturbed [OF k, of u d] u by simp
  have lui: "length ?ui = n_u" using u by (simp add: length_perturbed)
  from J x lui obtain s1 where j: "jac s x ?ui = Inr (J x ?ui, s1)"
    and sh: "shape n_x (n_x + n_u) (J x ?ui)"
    unfolding exact_jacobian_def by blast
  let ?acc = "mat_add acc (J x ?ui)"
  have acc': "?acc = map (\<lambda>a. map (\<lambda>b. acc ! a ! b + J x ?ui ! a ! b) [0..<n_x + n_u]) [0..<n_x]"
    using Suc.prems(1) sh by (rule mat_add_tabulate)
  have sh': "shape n_x (n_x + n_u) ?acc" unfolding acc' by (rule shape_tabulate)
  have m: "m = n - Suc k" using Suc.hyps(2) by simp
  from Suc.hyps(1) [OF m sh', of s1] k
  obtain s' where IH: "first_order_loop jac n_x n_u x u (normal_draws n n_u d) [Suc k..<n] s1 ?acc =
           Inr (map (\<lambda>a. map (\<lambda>b. ?acc ! a ! b + (\<Sum>i = Suc k..<n. J x (perturbed u d i) ! a ! b))
                          [0..<n_x + n_u]) [0..<n_x], s')"
    by auto
  have "map (\<lambda>a. map (\<lambda>b. ?acc ! a ! b + (\<Sum>i = Suc k..<n. J x (perturbed u d i) ! a ! b))
                          [0..<n_x + n_u]) [0..<n_x]
        = map (\<lambda>a. map (\<lambda>b. acc ! a ! b + (\<Sum>i = k..<n. J x (perturbed u d i) ! a ! b))
                          [0..<n_x + n_u]) [0..<n_x]"
    using k by (simp add: acc' sum.atLeast_Suc_lessThan add.assoc)
  with IH show ?case
    using ui j bcast_mat_shape [OF sh] by (auto simp: upt)
qed

lemma calc_AB_first_order_mean:
  assumes J: "exact_jacobian n_x n_u jac J" and x: "length x = n_x" and u: "length u = n_u"
  shows "\<exists>s'. calc_AB_first_order jac n_x n_u s x u n d =
           Inr (mean_matrix n_x (n_x + n_u) n (\<lambda>i. J x (perturbed u d i)), s')"
proof -
  from first_order_loop_sum [OF J x u shape_zeros, of 0 n d s]
  obtain s' where l: "first_order_loop jac n_x n_u x u (normal_draws n n_u d) [0..<n] s
                        (zeros n_x (n_x + n_u)) =
           Inr (map (\<lambda>a. map (\<lambda>b. zeros n_x (n_x + n_u) ! a ! b
                                    + (\<Sum>i = 0..<n. J x (perturbed u d i) ! a ! b))
                          [0..<n_x + n_u]) [0..<n_x], s')"
    by auto
  have "calc_AB_first_order jac n_x n_u s x u n d =
           Inr (mean_matrix n_x (n_x + n_u) n (\<lambda>i. J x (perturbed u d i)), s')"
    by (simp add: calc_AB_first_order_def Let_def l mean_matrix_def zeros_nth
        atLeast0LessThan comp_def)
  then show ?thesis by blast
qed

lemma AB_zero_order_loop_rows:
  assumes f: "one_step_dynamics n_x n_u dyn f" and x: "length x = n_x" and u: "length u = n_u"
    and acc: "length acc = n" and k: "k \<le> n"
  shows "\<exists>s'. AB_zero_order_loop dyn n_x x u (normal_draws n n_x d1) (normal_draws n n_u d2)
                [k..<n] s acc =
           Inr (take k acc @ map (\<lambda>i. f (perturbed x d1 i) (perturbed u d2 i)) [k..<n], s')"
  using acc k
proof (induction "n - k" arbitrary: k s acc)
  case 0
  then show ?case by simp
next
  case (Suc m)
  then have k: "k < n" by simp
  have upt: "[k..<n] = k # [Suc k..<n]" using k by (simp add: upt_conv_Cons)
  let ?xi = "perturbed x d1 k" and ?ui = "perturbed u d2 k"
  have xi: "np_add x (normal_draws n n_x d1 ! k) = Inr ?xi"
    using np_add_perturbed [OF k, of x d1] x by simp
  have ui: "np_add u (normal_draws n n_u d2 ! k) = Inr ?ui"
    using np_add_perturbed [OF k, of u d2] u by simp
  have l: "length ?xi = n_x" "length ?ui = n_u" using x u by (simp_all add: length_perturbed)
  from f l obtain s1 where y: "dyn s ?xi ?ui False = Inr (f ?xi ?ui, s1)"
    and ly: "length (f ?xi ?ui) = n_x"
    unfolding one_step_dynamics_def by blast
  have b: "bcast_row n_x (f ?xi ?ui) = Inr (f ?xi ?ui)" using ly by (rule bcast_row_same)
  have m: "m = n - Suc k" using Suc.hyps(2) by simp
  have la: "length (acc[k := f ?xi ?ui]) = n" using Suc.prems by simp
  from Suc.hyps(1) [OF m la, of s1] k
  obtain s' where IH: "AB_zero_order_loop dyn n_x x u (normal_draws n n_x d1)
       (normal_draws n n_u d2) [Suc k..<n] s1 (acc[k := f ?xi ?ui]) =
           Inr (take (Suc k) (acc[k := f ?xi ?ui])
                @ map (\<lambda>i. f (perturbed x d1 i) (perturbed u d2 i)) [Suc k..<n], s')"
    by auto
  have tk: "take (Suc k) (acc[k := f ?xi ?ui]) = take k acc @ [f ?xi ?ui]"
    using k Suc.prems by (simp add: take_Suc_conv_app_nth)
  show ?case using xi ui y b IH tk by (auto simp: upt)
qed

lemma B_zero_order_loop_rows:
  assumes f: "one_step_dynamics n_x n_u dyn f" and x: "length x = n_x" and u: "length u = n_u"
    and acc: "length acc = n" and k: "k \<le> n"
  shows "\<exists>s'. B_zero_order_loop dyn n_x x u (normal_draws n n_u d2) [k..<n] s acc =
           Inr (take k acc @ map (\<lambda>i. f x (perturbed u d2 i)) [k..<n], s')"
  using acc k
proof (induction "n - k" arbitrary: k s acc)
  case 0
  then show ?case by simp
next
  case (Suc m)
  then have k: "k < n" by simp
  have upt: "[k..<n] = k # [Suc k..<n]" using k by (simp add: upt_conv_Cons)
  let ?ui = "perturbed u d2 k"
  have ui: "np_add u (normal_draws n n_u d2 ! k) = Inr ?ui"
    using np_add_perturbed [OF k, of u d2] u by simp
  have l: "length ?ui = n_u" using u by (simp add: length_perturbed)
  from f x l obtain s1 where y: "dyn s x ?ui False = Inr (f x ?ui, s1)"
    and ly: "length (f x ?ui) = n_x"
    unfolding one_step_dynamics_def by blast
  have b: "bcast_row n_x (f x ?ui) = Inr (f x ?ui)" using ly by (rule bcast_row_same)
  have m: "m = n - Suc k" using Suc.hyps(2) by simp
  have la: "length (acc[k := f x ?ui]) = n" using Suc.prems by simp
  from Suc.hyps(1) [OF m la, of s1] k
  obtain s' where IH: "B_zero_order_loop dyn n_x x u (normal_draws n n_u d2) [Suc k..<n] s1
         (acc[k := f x ?ui]) =
           Inr (take (Suc k) (acc[k := f x ?ui])
                @ map (\<lambda>i. f x (perturbed u d2 i)) [Suc k..<n], s')"
    by auto
  have tk: "take (Suc k) (acc[k := f x ?ui]) = take k acc @ [f x ?ui]"
    using k Suc.prems by (simp add: take_Suc_conv_app_nth)
  show ?case using ui y b IH tk by (auto simp: upt)
qed

lemma sub_rows_same: "length v = n_x \<Longrightarrow> sub_rows n_x X v = Inr (map (\<lambda>r. map2 (-) r v) X)"
  by (simp add: sub_rows_def)

lemma length_set_block: "length (set_block r0 c0 V M) = length M"
  by (simp add: set_block_def)

lemma set_block_nth:
  "i < length M \<Longrightarrow> set_block r0 c0 V M ! i =
     (if r0 \<le> i \<and> i < r0 + length V
      then take c0 (M ! i) @ V ! (i - r0) @ drop (c0 + length (V ! (i - r0))) (M ! i)
      else M ! i)"
  by (simp add: set_block_def)

lemma zeros_row: "i < n \<Longrightarrow> zeros n m ! i = replicate m 0"
  by (simp add: zeros_def)

lemma length_zeros: "length (zeros n m) = n"
  by (simp add: zeros_def)

lemma zero_order_A_stacked:
  "zero_order_A n_x n_u n (normal_draws n n_x d1) (normal_draws n n_u d2) damp
     = stacked_lhs n_x n_u n d1 d2 damp"
proof (rule nth_equalityI)
  show len: "length (zero_order_A n_x n_u n (normal_draws n n_x d1) (normal_draws n n_u d2) damp)
        = length (stacked_lhs n_x n_u n d1 d2 damp)"
    by (simp add: zero_order_A_def stacked_lhs_def Let_def length_set_block length_zeros)
next
  fix i
  assume "i < length (zero_order_A n_x n_u n (normal_draws n n_x d1) (normal_draws n n_u d2) damp)"
  then have i: "i < n + n_x + n_u"
    by (simp add: zero_order_A_def Let_def length_set_block length_zeros)
  have ld: "length (normal_draws n n_x d1) = n" "length (normal_draws n n_u d2) = n"
    by (simp_all add: normal_draws_def)
  have le: "length (eye (n_x + n_u)) = n_x + n_u"
    by (simp add: eye_def)
  show "zero_order_A n_x n_u n (normal_draws n n_x d1) (normal_draws n n_u d2) damp ! i
        = stacked_lhs n_x n_u n d1 d2 damp ! i"
  proof (cases "i < n")
    case True
    then show ?thesis
      using i
      by (simp add: zero_order_A_def Let_def set_block_nth length_set_block length_zeros
          zeros_row ld le normal_draws_nth length_sample stacked_lhs_def nth_append)
  next
    case False
    then have j: "i - n < n_x + n_u" using i by simp
    have "map (map (\<lambda>a. a * damp)) (eye (n_x + n_u)) ! (i - n)
          = map (\<lambda>j. if i - n = j then damp else 0) [0..<n_x + n_u]"
      using j by (simp add: eye_def)
    then show ?thesis
      using i False j
      by (simp add: zero_order_A_def Let_def set_block_nth length_set_block length_zeros
          zeros_row ld le stacked_lhs_def nth_append)
  qed
qed

lemma zero_order_B_stacked:
  assumes "shape n n_x D"
  shows "zero_order_B n_x n_u n D = D @ replicate (n_x + n_u) (replicate n_x 0)"
proof (rule nth_equalityI)
  show "length (zero_order_B n_x n_u n D) = length (D @ replicate (n_x + n_u) (replicate n_x 0))"
    using assms by (simp add: zero_order_B_def Let_def length_set_block length_zeros shape_def)
next
  fix i assume "i < length (zero_order_B n_x n_u n D)"
  then have i: "i < n + n_x + n_u"
    by (simp add: zero_order_B_def Let_def length_set_block length_zeros)
  have l: "length D = n" using assms by (simp add: shape_def)
  show "zero_order_B n_x n_u n D ! i = (D @ replicate (n_x + n_u) (replicate n_x 0)) ! i"
  proof (cases "i < n")
    case True
    then show ?thesis
      using i l shape_nth [OF assms True]
      by (simp add: zero_order_B_def Let_def set_block_nth length_zeros zeros_row nth_append)
  next
    case False
    then show ?thesis
      using i l
      by (simp add: zero_order_B_def Let_def set_block_nth length_zeros zeros_row nth_append)
  qed
qed

lemma calc_AB_zero_order_result:
  assumes f: "one_step_dynamics n_x n_u dyn f" and x: "length x = n_x" and u: "length u = n_u"
  shows "\<exists>s'. calc_AB_zero_order dyn n_x n_u s x u n d1 d2 damp =
           Inr (np_transpose n_x
                  (np_lstsq (n_x + n_u) n_x (stacked_lhs n_x n_u n d1 d2 damp)
                     (stacked_rhs n_x n_u n f x u d1 d2)), s')"
proof -
  from f x u obtain s1 where nom: "dyn s x u False = Inr (f x u, s1)" and ln: "length (f x u) = n_x"
    unfolding one_step_dynamics_def by blast
  from AB_zero_order_loop_rows [OF f x u length_zeros, of 0 n d1 d2 s1]
  obtain s2 where loop: "AB_zero_order_loop dyn n_x x u (normal_draws n n_x d1)
        (normal_draws n n_u d2) [0..<n] s1 (zeros n n_x)
      = Inr (map (\<lambda>i. f (perturbed x d1 i) (perturbed u d2 i)) [0..<n], s2)"
    by auto
  let ?D = "map (\<lambda>i. map2 (-) (f (perturbed x d1 i) (perturbed u d2 i)) (f x u)) [0..<n]"
  have sub: "sub_rows n_x (map (\<lambda>i. f (perturbed x d1 i) (perturbed u d2 i)) [0..<n]) (f x u)
               = Inr ?D"
    using ln by (simp add: sub_rows_same comp_def)
  have "length (f (perturbed x d1 i) (perturbed u d2 i)) = n_x" for i
    using f x u unfolding one_step_dynamics_def by (simp add: length_perturbed)
  then have sh: "shape n n_x ?D"
    using ln by (intro shapeI) simp_all
  have B: "zero_order_B n_x n_u n ?D = stacked_rhs n_x n_u n f x u d1 d2"
    using zero_order_B_stacked [OF sh] by (simp add: stacked_rhs_def)
  have "calc_AB_zero_order dyn n_x n_u s x u n d1 d2 damp =
           Inr (np_transpose n_x
                  (np_lstsq (n_x + n_u) n_x (stacked_lhs n_x n_u n d1 d2 damp)
                     (stacked_rhs n_x n_u n f x u d1 d2)), s2)"
    unfolding calc_AB_zero_order_def Let_def
    by (simp add: nom loop sub B zero_order_A_stacked)
  then show ?thesis by blast
qed

lemma length_np_lstsq: "length (np_lstsq n k A B) = n"
  by (simp add: np_lstsq_def)

lemma shape_np_lstsq: "shape n k (np_lstsq n k A B)"
  unfolding np_lstsq_def by (rule shape_tabulate)

lemma shape_np_transpose: "shape k (length X) (np_transpose k X)"
  by (rule shapeI) (simp_all add: np_transpose_def)

lemma shape_zero_order_result:
  "shape n_x (n_x + n_u) (np_transpose n_x (np_lstsq (n_x + n_u) n_x A B))"
  using shape_np_transpose [of n_x "np_lstsq (n_x + n_u) n_x A B"]
  by (simp add: length_np_lstsq)

lemma shape_mean_matrix: "shape r c (mean_matrix r c n Js)"
  unfolding mean_matrix_def by (rule shape_tabulate)

text \<open>The two slice assignments of the B-only estimator put the blocks side by side.\<close>

lemma set_block_blocks:
  assumes AB: "shape n_x (n_x + n_u) AB" and T: "shape n_x n_u T"
  shows "set_block 0 n_x T (set_block 0 0 (map (take n_x) AB) (zeros n_x (n_x + n_u)))
           = hstack (map (take n_x) AB) T"
proof (rule nth_equalityI)
  show "length (set_block 0 n_x T (set_block 0 0 (map (take n_x) AB) (zeros n_x (n_x + n_u))))
          = length (hstack (map (take n_x) AB) T)"
    using AB T by (simp add: length_set_block length_zeros hstack_def shape_def)
next
  fix i
  assume "i < length (set_block 0 n_x T (set_block 0 0 (map (take n_x) AB) (zeros n_x (n_x + n_u))))"
  then have i: "i < n_x" by (simp add: length_set_block length_zeros)
  have l: "length AB = n_x" "length T = n_x" "length (AB ! i) = n_x + n_u" "length (T ! i) = n_u"
    using AB T i by (simp_all add: shape_length shape_nth)
  show "set_block 0 n_x T (set_block 0 0 (map (take n_x) AB) (zeros n_x (n_x + n_u))) ! i
          = hstack (map (take n_x) AB) T ! i"
    using i l
    by (simp add: set_block_nth length_set_block length_zeros zeros_row hstack_def)
qed

lemma shape_hstack:
  assumes "shape n a A" "shape n b B"
  shows "shape n (a + b) (hstack A B)"
  using assms by (intro shapeI) (simp_all add: hstack_def shape_length shape_nth)

lemma shape_map_take:
  assumes "shape n (a + b) M"
  shows "shape n a (map (take a) M)"
  using assms by (intro shapeI) (simp_all add: shape_length shape_nth)

lemma calc_B_zero_order_result:
  assumes f: "one_step_dynamics n_x n_u dyn f" and J: "exact_jacobian n_x n_u jac J"
    and x: "length x = n_x" and u: "length u = n_u"
  shows "\<exists>s'. calc_B_zero_order dyn jac n_x n_u s x u n d1 d2 =
           Inr (hstack (map (take n_x) (mean_matrix n_x (n_x + n_u) n (\<lambda>i. J x (perturbed u d1 i))))
                  (np_transpose n_x
                     (np_lstsq n_u n_x (normal_draws n n_u d2) (control_deviations n f x u d2))),
                s')"
proof -
  from f x u obtain s1 where nom: "dyn s x u True = Inr (f x u, s1)" and ln: "length (f x u) = n_x"
    unfolding one_step_dynamics_def by blast
  from calc_AB_first_order_mean [OF J x u, of s1 n d1]
  obtain s2 where fo: "calc_AB_first_order jac n_x n_u s1 x u n d1 =
           Inr (mean_matrix n_x (n_x + n_u) n (\<lambda>i. J x (perturbed u d1 i)), s2)"
    by blast
  from B_zero_order_loop_rows [OF f x u length_zeros, of 0 n d2 s2]
  obtain s3 where loop: "B_zero_order_loop dyn n_x x u (normal_draws n n_u d2) [0..<n] s2
        (zeros n n_x)
      = Inr (map (\<lambda>i. f x (perturbed u d2 i)) [0..<n], s3)"
    by auto
  have sub: "sub_rows n_x (map (\<lambda>i. f x (perturbed u d2 i)) [0..<n]) (f x u)
               = Inr (control_deviations n f x u d2)"
    using ln by (simp add: sub_rows_same comp_def control_deviations_def)
  let ?T = "np_transpose n_x (np_lstsq n_u n_x (normal_draws n n_u d2)
                (control_deviations n f x u d2))"
  have T: "shape n_x n_u ?T"
    using shape_np_transpose [of n_x "np_lstsq n_u n_x (normal_draws n n_u d2)
                (control_deviations n f x u d2)"]
    by (simp add: length_np_lstsq)
  have blocks: "set_block 0 n_x ?T (set_block 0 0
            (map (take n_x) (mean_matrix n_x (n_x + n_u) n (\<lambda>i. J x (perturbed u d1 i))))
            (zeros n_x (n_x + n_u)))
          = hstack (map (take n_x) (mean_matrix n_x (n_x + n_u) n (\<lambda>i. J x (perturbed u d1 i)))) ?T"
    using shape_mean_matrix T by (rule set_block_blocks)
  have "calc_B_zero_order dyn jac n_x n_u s x u n d1 d2 =
           Inr (hstack (map (take n_x) (mean_matrix n_x (n_x + n_u) n (\<lambda>i. J x (perturbed u d1 i))))
                  ?T, s3)"
    unfolding calc_B_zero_order_def Let_def
    by (simp add: nom fo loop sub blocks)
  then show ?thesis by blast
qed

lemma dot_Nil [simp]: "dot [] v = 0" "dot v [] = 0"
  by (simp_all add: dot_def)

lemma dot_Cons [simp]: "dot (a # r) (b # v) = a * b + dot r v"
  by (simp add: dot_def)





lemma dot_zero_left [simp]: "dot (replicate m 0) v = 0"
proof (induction m arbitrary: v)
  case 0
  then show ?case by simp
next
  case (Suc m)
  then show ?case by (cases v) simp_all
qed


















lemma bcast_mat_is_shape: "bcast_mat n m J = Inr Jb \<Longrightarrow> shape n m Jb"
  by (auto simp: bcast_mat_def shape_def list_all_iff split: if_splits)

lemma shape_lstsq_transposed: "shape k n (np_transpose k (np_lstsq n k A B))"
  using shape_np_transpose [of k "np_lstsq n k A B"] by (simp add: length_np_lstsq)

lemma batch_loop_shapes:
  assumes est: "\<And>s i x u. length x = n_x \<Longrightarrow> length u = n_u
                  \<Longrightarrow> \<exists>M s'. g s i x u = Inr (M, s') \<and> shape n_x (n_x + n_u) M"
    and xs: "list_all (\<lambda>x. length x = n_x) xs" and us: "list_all (\<lambda>u. length u = n_u) us"
    and len: "length xs = n" "length us = n"
    and acc: "length acc = n" "list_all (shape n_x (n_x + n_u)) acc" and k: "k \<le> n"
  shows "\<exists>L s'. batch_loop g n_x n_u xs us [k..<n] s acc = Inr (L, s')
            \<and> length L = n \<and> list_all (shape n_x (n_x + n_u)) L"
  using acc k
proof (induction "n - k" arbitrary: k s acc)
  case 0
  then show ?case by simp
next
  case (Suc m)
  then have k: "k < n" by simp
  have upt: "[k..<n] = k # [Suc k..<n]" using k by (simp add: upt_conv_Cons)
  have lx: "length (xs ! k) = n_x" and lu: "length (us ! k) = n_u"
    using xs us len k by (simp_all add: list_all_length)
  from est [OF lx lu, of s k] obtain M s1
    where g: "g s k (xs ! k) (us ! k) = Inr (M, s1)" and sh: "shape n_x (n_x + n_u) M"
    by blast
  have b: "bcast_mat n_x (n_x + n_u) M = Inr M" using sh by (rule bcast_mat_shape)
  have m: "m = n - Suc k" using Suc.hyps(2) by simp
  have la: "length (acc[k := M]) = n" using Suc.prems by simp
  have sa: "list_all (shape n_x (n_x + n_u)) (acc[k := M])"
    using Suc.prems(1,2) sh k by (auto simp: list_all_length nth_list_update)
  from Suc.hyps(1) [OF m la sa, of s1] k
  obtain L s' where "batch_loop g n_x n_u xs us [Suc k..<n] s1 (acc[k := M]) = Inr (L, s')"
    "length L = n" "list_all (shape n_x (n_x + n_u)) L"
    by auto
  then show ?case using g b k len by (auto simp: upt)
qed

lemma calc_AB_batch_shapes:
  assumes f: "one_step_dynamics n_x n_u dyn f" and J: "exact_jacobian n_x n_u jac J"
    and xs: "list_all (\<lambda>x. length x = n_x) xs" and us: "list_all (\<lambda>u. length u = n_u) us"
    and len: "length xs = length us"
  shows "\<exists>L s'. calc_AB_batch dyn jac n_x n_u s xs us n e1 e2 mode = Inr (L, s')
            \<and> length L = length xs \<and> list_all (shape n_x (n_x + n_u)) L"
proof -
  let ?acc = "replicate (length xs) (zeros n_x (n_x + n_u))"
  have acc: "length ?acc = length xs" "list_all (shape n_x (n_x + n_u)) ?acc"
    by (simp_all add: list_all_length shape_zeros)
  have loop: "\<exists>L s'. batch_loop g n_x n_u xs us [0..<length xs] s ?acc = Inr (L, s')
            \<and> length L = length xs \<and> list_all (shape n_x (n_x + n_u)) L"
    if "\<And>s i x u. length x = n_x \<Longrightarrow> length u = n_u
                  \<Longrightarrow> \<exists>M s'. g s i x u = Inr (M, s') \<and> shape n_x (n_x + n_u) M" for g
    by (rule batch_loop_shapes [OF that xs us refl len [symmetric] acc]) simp_all
  have fo: "\<exists>M s'. calc_AB_first_order jac n_x n_u s x u n (e1 i) = Inr (M, s')
               \<and> shape n_x (n_x + n_u) M" if "length x = n_x" "length u = n_u" for s i x u
  proof -
    from calc_AB_first_order_mean [OF J that, of s n "e1 i"] obtain s'
      where "calc_AB_first_order jac n_x n_u s x u n (e1 i) =
           Inr (mean_matrix n_x (n_x + n_u) n (\<lambda>k. J x (perturbed u (e1 i) k)), s')"
      by blast
    then show ?thesis using shape_mean_matrix by blast
  qed
  have bz: "\<exists>M s'. calc_B_zero_order dyn jac n_x n_u s x u n (e1 i) (e2 i) = Inr (M, s')
               \<and> shape n_x (n_x + n_u) M" if "length x = n_x" "length u = n_u" for s i x u
  proof -
    from calc_B_zero_order_result [OF f J that, of s n "e1 i" "e2 i"] obtain s'
      where r: "calc_B_zero_order dyn jac n_x n_u s x u n (e1 i) (e2 i) =
           Inr (hstack (map (take n_x) (mean_matrix n_x (n_x + n_u) n (\<lambda>k. J x (perturbed u (e1 i) k))))
                  (np_transpose n_x
                     (np_lstsq n_u n_x (normal_draws n n_u (e2 i)) (control_deviations n f x u (e2 i)))),
                s')"
      by blast
    have "shape n_x (n_x + n_u)
            (hstack (map (take n_x) (mean_matrix n_x (n_x + n_u) n (\<lambda>k. J x (perturbed u (e1 i) k))))
                  (np_transpose n_x
                     (np_lstsq n_u n_x (normal_draws n n_u (e2 i)) (control_deviations n f x u (e2 i)))))"
      by (rule shape_hstack [OF shape_map_take [OF shape_mean_matrix] shape_lstsq_transposed])
    with r show ?thesis by blast
  qed
  have abz: "\<exists>M s'. calc_AB_zero_order dyn n_x n_u s x u n (e1 i) (e2 i) (1 / 10 ^ 10) = Inr (M, s')
               \<and> shape n_x (n_x + n_u) M" if "length x = n_x" "length u = n_u" for s i x u
  proof -
    from calc_AB_zero_order_result [OF f that, of s n "e1 i" "e2 i" "1 / 10 ^ 10"] obtain s'
      where "calc_AB_zero_order dyn n_x n_u s x u n (e1 i) (e2 i) (1 / 10 ^ 10) =
           Inr (np_transpose n_x
                  (np_lstsq (n_x + n_u) n_x (stacked_lhs n_x n_u n (e1 i) (e2 i) (1 / 10 ^ 10))
                     (stacked_rhs n_x n_u n f x u (e1 i) (e2 i))), s')"
      by blast
    then show ?thesis using shape_zero_order_result by blast
  qed
  have ex: "\<exists>M s'. calc_AB_exact jac s x u = Inr (M, s') \<and> shape n_x (n_x + n_u) M"
    if "length x = n_x" "length u = n_u" for s and i :: nat and x u
    using J that unfolding exact_jacobian_def calc_AB_exact_def by blast
  show ?thesis
    unfolding calc_AB_batch_def Let_def
    using loop [of "\<lambda>s i x u. calc_AB_first_order jac n_x n_u s x u n (e1 i)", OF fo]
      loop [of "\<lambda>s i x u. calc_B_zero_order dyn jac n_x n_u s x u n (e1 i) (e2 i)", OF bz]
      loop [of "\<lambda>s i x u. calc_AB_zero_order dyn n_x n_u s x u n (e1 i) (e2 i) (1 / 10 ^ 10)", OF abz]
      loop [of "\<lambda>s i x u. calc_AB_exact jac s x u", OF ex] acc
    by simp
qed

lemma counting_f0: "one_step_dynamics 1 1 (counting_dyn f0) f0"
  by (simp add: one_step_dynamics_def counting_dyn_def f0_def linear_dynamics_def mat_vec_def)

lemma counting_J0: "exact_jacobian 1 1 (counting J0) J0"
  by (simp add: exact_jacobian_def counting_def J0_def shape_def)

lemma first_order_example:
  "calc_AB_first_order (counting J0) 1 1 0 [1] [1] 2 draw0 = Inr ([[3, 3 / 2]], 2)"
  by (simp add: calc_AB_first_order_def Let_def counting_def normal_draws_def np_add_def
      broadcast2_def bcast_mat_def mat_add_def zeros_def eval_nat_numeral J0_def draw0_def)





text \<open>
  Claim C4.  With the state held at \<open>x_nominal\<close>, at least one sample and the
  control perturbations \<open>du_1 \<dots> du_n\<close>, \<open>calc_AB_first_order\<close> returns the
  arithmetic mean of the exact Jacobians at \<open>(x_nominal, u_nominal + du_i)\<close>.
\<close>

theorem first_order_is_mean_of_jacobians:
  assumes "exact_jacobian n_x n_u jac J" "length x_nominal = n_x" "length u_nominal = n_u"
      and "1 \<le> n_samples"
  shows "\<exists>s'. calc_AB_first_order jac n_x n_u s x_nominal u_nominal n_samples du =
           Inr (mean_matrix n_x (n_x + n_u) n_samples
                  (\<lambda>i. J x_nominal (perturbed u_nominal du i)), s')"
  using assms(1,2,3) by (rule calc_AB_first_order_mean)

theorem first_order_is_mean_of_jacobians_witness:
  "exact_jacobian 1 1 (counting J0) J0
   \<and> J0 [1] (perturbed [1] draw0 0) = [[3, 1]]
   \<and> J0 [1] (perturbed [1] draw0 1) = [[3, 2]]
   \<and> mean_matrix 1 2 2 (\<lambda>i. J0 [1] (perturbed [1] draw0 i)) = [[3, 3 / 2]]
   \<and> calc_AB_first_order (counting J0) 1 1 0 [1] [1] 2 draw0 = Inr ([[3, 3 / 2]], 2)"
proof -
  have l: "length [1 :: real] = 1" "(1 :: nat) \<le> 2" by simp_all
  from first_order_is_mean_of_jacobians [OF counting_J0 l(1) l(1) l(2), of 0 draw0]
  obtain s' where "calc_AB_first_order (counting J0) 1 1 0 [1] [1] 2 draw0
      = Inr (mean_matrix 1 (1 + 1) 2 (\<lambda>i. J0 [1] (perturbed [1] draw0 i)), s')"
    by blast
  with first_order_example have "mean_matrix 1 (1 + 1) 2 (\<lambda>i. J0 [1] (perturbed [1] draw0 i)) = [[3, 3 / 2]]"
    by simp
  then have m: "mean_matrix 1 2 2 (\<lambda>i. J0 [1] (perturbed [1] draw0 i)) = [[3, 3 / 2]]"
    by (simp only: one_add_one)
  have j: "J0 [1] (perturbed [1] draw0 0) = [[3, 1]]" "J0 [1] (perturbed [1] draw0 1) = [[3, 2]]"
    by (simp_all add: J0_def perturbed_def sample_def draw0_def)
  show ?thesis using counting_J0 j m first_order_example by simp
qed













text \<open>
  Claim C7.  \<open>calc_AB_exact\<close>, \<open>calc_AB_first_order\<close>, \<open>calc_B_zero_order\<close>,
  \<open>calc_AB_zero_order\<close> and every entry of \<open>calc_AB_batch\<close>, in each mode, return a
  matrix of shape \<open>(n_x, n_x + n_u)\<close>, for the dimensions the adapter was built
  with.
\<close>

theorem linearizations_keep_shape:
  assumes "one_step_dynamics n_x n_u dyn f" "exact_jacobian n_x n_u jac J"
      and "length x = n_x" "length u = n_u"
      and "list_all (\<lambda>x. length x = n_x) xs" "list_all (\<lambda>u. length u = n_u) us"
      and "length xs = length us"
  shows "(\<exists>M s'. calc_AB_exact jac s x u = Inr (M, s') \<and> shape n_x (n_x + n_u) M)
       \<and> (\<exists>M s'. calc_AB_first_order jac n_x n_u s x u n d1 = Inr (M, s')
                  \<and> shape n_x (n_x + n_u) M)
       \<and> (\<exists>M s'. calc_B_zero_order dyn jac n_x n_u s x u n d1 d2 = Inr (M, s')
                  \<and> shape n_x (n_x + n_u) M)
       \<and> (\<exists>M s'. calc_AB_zero_order dyn n_x n_u s x u n d1 d2 damp = Inr (M, s')
                  \<and> shape n_x (n_x + n_u) M)
       \<and> (\<exists>L s'. calc_AB_batch dyn jac n_x n_u s xs us n e1 e2 mode = Inr (L, s')
                  \<and> length L = length xs \<and> list_all (shape n_x (n_x + n_u)) L)"
proof (intro conjI)
  show "\<exists>M s'. calc_AB_exact jac s x u = Inr (M, s') \<and> shape n_x (n_x + n_u) M"
    using assms(2,3,4) unfolding exact_jacobian_def calc_AB_exact_def by blast
  show "\<exists>M s'. calc_AB_first_order jac n_x n_u s x u n d1 = Inr (M, s')
                  \<and> shape n_x (n_x + n_u) M"
  proof -
    from calc_AB_first_order_mean [OF assms(2,3,4), of s n d1] obtain s'
      where "calc_AB_first_order jac n_x n_u s x u n d1 =
           Inr (mean_matrix n_x (n_x + n_u) n (\<lambda>k. J x (perturbed u d1 k)), s')"
      by blast
    then show ?thesis using shape_mean_matrix by blast
  qed
  show "\<exists>M s'. calc_B_zero_order dyn jac n_x n_u s x u n d1 d2 = Inr (M, s')
                  \<and> shape n_x (n_x + n_u) M"
  proof -
    from calc_B_zero_order_result [OF assms(1,2,3,4), of s n d1 d2] obtain s'
      where r: "calc_B_zero_order dyn jac n_x n_u s x u n d1 d2 =
           Inr (hstack (map (take n_x) (mean_matrix n_x (n_x + n_u) n (\<lambda>k. J x (perturbed u d1 k))))
                  (np_transpose n_x
                     (np_lstsq n_u n_x (normal_draws n n_u d2) (control_deviations n f x u d2))),
                s')"
      by blast
    have "shape n_x (n_x + n_u)
            (hstack (map (take n_x) (mean_matrix n_x (n_x + n_u) n (\<lambda>k. J x (perturbed u d1 k))))
                  (np_transpose n_x
                     (np_lstsq n_u n_x (normal_draws n n_u d2) (control_deviations n f x u d2))))"
      by (rule shape_hstack [OF shape_map_take [OF shape_mean_matrix] shape_lstsq_transposed])
    with r show ?thesis by blast
  qed
  show "\<exists>M s'. calc_AB_zero_order dyn n_x n_u s x u n d1 d2 damp = Inr (M, s')
                  \<and> shape n_x (n_x + n_u) M"
  proof -
    from calc_AB_zero_order_result [OF assms(1,3,4), of s n d1 d2 damp] obtain s'
      where "calc_AB_zero_order dyn n_x n_u s x u n d1 d2 damp =
           Inr (np_transpose n_x
                  (np_lstsq (n_x + n_u) n_x (stacked_lhs n_x n_u n d1 d2 damp)
                     (stacked_rhs n_x n_u n f x u d1 d2)), s')"
      by blast
    then show ?thesis using shape_zero_order_result by blast
  qed
  show "\<exists>L s'. calc_AB_batch dyn jac n_x n_u s xs us n e1 e2 mode = Inr (L, s')
                  \<and> length L = length xs \<and> list_all (shape n_x (n_x + n_u)) L"
    using assms(1,2,5,6,7) by (rule calc_AB_batch_shapes)
qed

theorem linearizations_keep_shape_witness:
  "one_step_dynamics 1 1 (counting_dyn f0) f0 \<and> exact_jacobian 1 1 (counting J0) J0
   \<and> list_all (\<lambda>x. length x = 1) [[1], [2 :: real]]
   \<and> list_all (\<lambda>u. length u = 1) [[1], [0 :: real]]
   \<and> calc_AB_exact (counting J0) 0 [1] [1] = Inr ([[3, 1]], 1)
   \<and> shape 1 2 [[3, 1]]
   \<and> calc_AB_first_order (counting J0) 1 1 0 [1] [1] 2 draw0 = Inr ([[3, 3 / 2]], 2)
   \<and> shape 1 2 [[3, 3 / 2]]
   \<and> (\<exists>M s'. calc_B_zero_order (counting_dyn f0) (counting J0) 1 1 0 [1] [1] 2 draw0 draw1
                 = Inr (M, s') \<and> shape 1 2 M)
   \<and> (\<exists>M s'. calc_AB_zero_order (counting_dyn f0) 1 1 0 [1] [1] 2 draw0 draw1 (1 / 2)
                 = Inr (M, s') \<and> shape 1 2 M)
   \<and> (\<exists>L s'. calc_AB_batch (counting_dyn f0) (counting J0) 1 1 0 [[1], [2]] [[1], [0]] 2
                 (\<lambda>i. draw0) (\<lambda>i. draw1) ''zero_order_B'' = Inr (L, s')
              \<and> length L = 2 \<and> list_all (shape 1 2) L)"
proof -
  have l: "length [1 :: real] = 1" by simp
  have xs: "list_all (\<lambda>x. length x = 1) [[1], [2 :: real]]"
    and us: "list_all (\<lambda>u. length u = 1) [[1], [0 :: real]]"
    and len: "length [[1], [2 :: real]] = length [[1], [0 :: real]]"
    by simp_all
  note r = linearizations_keep_shape [OF counting_f0 counting_J0 l l xs us len,
      of 0 2 draw0 draw1 "1 / 2" "\<lambda>i. draw0" "\<lambda>i. draw1" "''zero_order_B''",
      unfolded one_add_one]
  have ex: "calc_AB_exact (counting J0) 0 [1] [1] = Inr ([[3, 1]], 1)"
    by (simp add: calc_AB_exact_def counting_def J0_def)
  have s1: "shape 1 2 [[3, 1]]" and s2: "shape 1 2 [[3, 3 / 2]]"
    by (simp_all add: shape_def)
  have l2: "length [[1], [2 :: real]] = 2" by simp
  have b: "\<exists>M s'. calc_B_zero_order (counting_dyn f0) (counting J0) 1 1 0 [1] [1] 2 draw0 draw1
                 = Inr (M, s') \<and> shape 1 2 M"
    by (rule r [THEN conjunct2, THEN conjunct2, THEN conjunct1])
  have ab: "\<exists>M s'. calc_AB_zero_order (counting_dyn f0) 1 1 0 [1] [1] 2 draw0 draw1 (1 / 2)
                 = Inr (M, s') \<and> shape 1 2 M"
    by (rule r [THEN conjunct2, THEN conjunct2, THEN conjunct2, THEN conjunct1])
  have bt: "\<exists>L s'. calc_AB_batch (counting_dyn f0) (counting J0) 1 1 0 [[1], [2]] [[1], [0]] 2
                 (\<lambda>i. draw0) (\<lambda>i. draw1) ''zero_order_B'' = Inr (L, s')
              \<and> length L = length [[1], [2 :: real]] \<and> list_all (shape 1 2) L"
    by (rule r [THEN conjunct2, THEN conjunct2, THEN conjunct2, THEN conjunct2])
  from bt have bt': "\<exists>L s'. calc_AB_batch (counting_dyn f0) (counting J0) 1 1 0 [[1], [2]] [[1], [0]] 2
                 (\<lambda>i. draw0) (\<lambda>i. draw1) ''zero_order_B'' = Inr (L, s')
              \<and> length L = 2 \<and> list_all (shape 1 2) L"
    by (simp only: l2)
  show ?thesis
    using counting_f0 counting_J0 xs us ex s1 first_order_example s2 b ab bt'
    by (intro conjI)
qed

text \<open>
  Claim C8.  A mode string other than \<open>first_order\<close>, \<open>zero_order_B\<close>,
  \<open>zero_order_AB\<close> and \<open>exact\<close> (the docstring's \<open>exact.\<close> is one) makes
  \<open>calc_AB_batch\<close> raise nothing and return the array of zeros of shape
  \<open>(n, n_x, n_x + n_u)\<close> it allocated, with the adapter untouched.
\<close>

theorem calc_AB_batch_unknown_mode:
  assumes "mode \<noteq> ''first_order''" "mode \<noteq> ''zero_order_B''"
      and "mode \<noteq> ''zero_order_AB''" "mode \<noteq> ''exact''"
  shows "calc_AB_batch dyn jac n_x n_u s x_nominals u_nominals n_samples d1 d2 mode
           = Inr (replicate (length x_nominals) (replicate n_x (replicate (n_x + n_u) 0)), s)"
  using assms by (simp add: calc_AB_batch_def zeros_def Let_def)

theorem calc_AB_batch_unknown_mode_witness:
  "''exact.'' \<noteq> ''first_order'' \<and> ''exact.'' \<noteq> ''zero_order_B''
   \<and> ''exact.'' \<noteq> ''zero_order_AB'' \<and> ''exact.'' \<noteq> ''exact''
   \<and> calc_AB_batch (\<lambda>s x u rg. Inr (x, s)) (\<lambda>s x u. Inl RuntimeError) 2 1 (0 :: nat)
        [[1, 2], [3, 4]] [[5], [6]] 3 (\<lambda>i j k. 1) (\<lambda>i j k. 1) ''exact.''
       = Inr ([[[0, 0, 0], [0, 0, 0]], [[0, 0, 0], [0, 0, 0]]], 0)"
proof -
  have h: "''exact.'' \<noteq> ''first_order''" "''exact.'' \<noteq> ''zero_order_B''"
    "''exact.'' \<noteq> ''zero_order_AB''" "''exact.'' \<noteq> ''exact''"
    by simp_all
  from calc_AB_batch_unknown_mode [OF h, of "\<lambda>s x u rg. Inr (x, s)" "\<lambda>s x u. Inl RuntimeError"
      2 1 "0 :: nat" "[[1, 2], [3, 4]]" "[[5], [6]]" 3 "\<lambda>i j k. 1" "\<lambda>i j k. 1"]
  show ?thesis by (simp add: eval_nat_numeral)
qed

end
